theory Spec2Isabelle
  imports Complex_Main
begin

section \<open>MS-GEO-PY: cities, zones and coordinate validation\<close>

text \<open>
  A shallow embedding of \<^verbatim>\<open>src/schemas/geo.py\<close> (the pydantic schemas),
  \<^verbatim>\<open>src/models/city.py\<close>, \<^verbatim>\<open>src/models/zone.py\<close> (the tables and their column
  constraints) and \<^verbatim>\<open>src/routers/geo.py\<close> (the handlers).

  Conventions of the embedding.
  \<^item> A handler is a function of the store and of its decoded arguments, as the Python
    function is: it returns \<open>Inl\<close> of the error it raises, or \<open>Inr\<close> of what it returns
    (for a writing handler, together with the store after the commit). A route is the
    handler between its request schema and its response schema.
  \<^item> A payload field is \<open>Absent\<close> (the key is not in the JSON object), \<open>Null\<close> (the key
    is there with value null) or \<open>Value v\<close>. Values are already of the field's JSON
    type; a string is a list of characters and its length is the length of that list.
  \<^item> Latitude and longitude are \<open>real\<close>s: NaN and the infinities fail the bounds of the
    two fields, and Python compares a finite float with an integer constant exactly.
  \<^item> \<open>func.now()\<close> of the models is the argument \<open>now\<close> of each writing handler.
  \<^item> Rows come back from a query in table order (the queries have no \<open>ORDER BY\<close>).
  \<^item> The handlers run after \<open>get_current_user\<close> (module \<^verbatim>\<open>utils\<close>) has accepted the
    caller; authentication is not part of the embedding.
\<close>

subsection \<open>Errors\<close>

text \<open>
  \<open>ValidationError fs\<close>: the request failed a schema, \<open>fs\<close> are the offending fields
  (status 422). \<open>NotFound\<close> and \<open>Conflict\<close> are the two \<open>HTTPException\<close>s the handlers
  raise (404 and 400). \<open>IntegrityError v\<close> is the exception \<open>db.commit()\<close> raises when
  the database refuses a statement; no handler catches it (status 500).
  \<open>ResponseValidationError\<close>: the value a handler returned failed its response schema.
  \<open>DataError\<close> is the exception a query raises for an integer the database cannot
  take (an \<open>OFFSET\<close> beyond 64 bits: \<open>DataError\<close> on PostgreSQL, \<open>OverflowError\<close> on
  SQLite); no handler catches it either (status 500).
\<close>

datatype violation = NotNullViolation | UniqueViolation | ForeignKeyViolation

datatype error =
    ValidationError "string list"
  | NotFound
  | Conflict
  | IntegrityError violation
  | ResponseValidationError
  | DataError

fun status_code :: "error \<Rightarrow> nat" where
  "status_code (ValidationError fs) = 422"
| "status_code NotFound = 404"
| "status_code Conflict = 400"
| "status_code (IntegrityError v) = 500"
| "status_code ResponseValidationError = 500"
| "status_code DataError = 500"

datatype 'a field = Absent | Null | Value 'a

subsection \<open>Tables (models/city.py, models/zone.py)\<close>

record city =
  c_id :: int
  c_name :: string
  c_country :: string
  c_is_active :: bool
  c_created_at :: nat
  c_updated_at :: nat

record zone =
  z_id :: int
  z_name :: string
  z_city_id :: int
  z_color :: string
  z_description :: "string option"
  z_is_active :: bool
  z_created_at :: nat
  z_updated_at :: nat

text \<open>
  The store: the two tables in row order and the two primary-key sequences
  (the next id each table hands out).
\<close>

record db =
  cities :: "city list"
  zones :: "zone list"
  next_city_id :: int
  next_zone_id :: int

subsection \<open>Settings (config.py)\<close>

definition DEFAULT_COUNTRY :: string where
  "DEFAULT_COUNTRY = ''Colombia''"

subsection \<open>Coordinate schemas (schemas/geo.py)\<close>

record coordinates =
  latitude :: real
  longitude :: real

record coordinate_response =
  r_latitude :: real
  r_longitude :: real
  r_is_valid :: bool
  r_country :: string

text \<open>\<open>Field(..., ge=-90, le=90)\<close> and \<open>Field(..., ge=-180, le=180)\<close>.\<close>

definition latitude_field_ok :: "real \<Rightarrow> bool" where
  "latitude_field_ok v \<longleftrightarrow> -90 \<le> v \<and> v \<le> 90"

definition longitude_field_ok :: "real \<Rightarrow> bool" where
  "longitude_field_ok v \<longleftrightarrow> -180 \<le> v \<and> v \<le> 180"

text \<open>
  The two \<open>field_validator\<close>s: \<open>Inl\<close> of the message where the source raises
  \<open>ValueError\<close>, \<open>Inr v\<close> where it returns \<open>v\<close>.
\<close>

definition validate_latitude_colombia :: "real \<Rightarrow> string + real" where
  "validate_latitude_colombia v =
     (if \<not> (-5 \<le> v \<and> v \<le> 13)
      then Inl ''La latitud debe estar entre -5 y 13 (rango de Colombia)''
      else Inr v)"

definition validate_longitude_colombia :: "real \<Rightarrow> string + real" where
  "validate_longitude_colombia v =
     (if \<not> (-80 \<le> v \<and> v \<le> -66)
      then Inl ''La longitud debe estar entre -80 y -66 (rango de Colombia)''
      else Inr v)"

text \<open>
  \<open>CoordinateValidation\<close>: per field, the \<open>Field\<close> bounds first and the validator
  after them; the errors of both fields are collected.
\<close>

definition latitude_errors :: "real \<Rightarrow> string list" where
  "latitude_errors v =
     (if \<not> latitude_field_ok v then [''latitude'']
      else (case validate_latitude_colombia v of
              Inl msg \<Rightarrow> [''latitude'']
            | Inr v' \<Rightarrow> []))"

definition longitude_errors :: "real \<Rightarrow> string list" where
  "longitude_errors v =
     (if \<not> longitude_field_ok v then [''longitude'']
      else (case validate_longitude_colombia v of
              Inl msg \<Rightarrow> [''longitude'']
            | Inr v' \<Rightarrow> []))"

definition CoordinateValidation :: "real \<Rightarrow> real \<Rightarrow> error + coordinates" where
  "CoordinateValidation lat lon =
     (let errs = latitude_errors lat @ longitude_errors lon
      in if errs = [] then Inr \<lparr>latitude = lat, longitude = lon\<rparr>
         else Inl (ValidationError errs))"

text \<open>
  \<open>CoordinateResponse\<close> inherits from \<open>CoordinateValidation\<close>, so building the response
  runs the same checks on the echoed values.
\<close>

definition CoordinateResponse :: "real \<Rightarrow> real \<Rightarrow> bool \<Rightarrow> string \<Rightarrow> error + coordinate_response" where
  "CoordinateResponse lat lon valid country =
     (case CoordinateValidation lat lon of
        Inl e \<Rightarrow> Inl ResponseValidationError
      | Inr c \<Rightarrow> Inr \<lparr>r_latitude = latitude c, r_longitude = longitude c,
                       r_is_valid = valid, r_country = country\<rparr>)"

text \<open>
  The handler \<open>validate_coordinates\<close>: the body is decoded by \<open>CoordinateValidation\<close>,
  then the response is built. The handler has no \<open>db\<close> parameter.
\<close>

definition validate_coordinates :: "real \<Rightarrow> real \<Rightarrow> error + coordinate_response" where
  "validate_coordinates lat lon =
     (case CoordinateValidation lat lon of
        Inl e \<Rightarrow> Inl e
      | Inr coordinates \<Rightarrow>
          CoordinateResponse (latitude coordinates) (longitude coordinates) True DEFAULT_COUNTRY)"

subsection \<open>Pagination (the \<open>Query\<close> parameters of get_cities and get_zones)\<close>

text \<open>
  \<open>skip: int = Query(0, ge=0)\<close>, \<open>limit: int = Query(100, ge=1, le=1000)\<close>: an absent
  parameter takes its default, a given one is checked.
\<close>

definition skip_param :: "int option \<Rightarrow> string list + int" where
  "skip_param p =
     (case p of None \<Rightarrow> Inr 0
      | Some v \<Rightarrow> if v \<ge> 0 then Inr v else Inl [''skip''])"

definition limit_param :: "int option \<Rightarrow> string list + int" where
  "limit_param p =
     (case p of None \<Rightarrow> Inr 100
      | Some v \<Rightarrow> if v \<ge> 1 \<and> v \<le> 1000 then Inr v else Inl [''limit''])"

definition errors_of :: "string list + 'a \<Rightarrow> string list" where
  "errors_of r = (case r of Inl fs \<Rightarrow> fs | Inr v \<Rightarrow> [])"

text \<open>Both parameters are checked and their errors collected.\<close>

definition page_params :: "int option \<Rightarrow> int option \<Rightarrow> error + (int \<times> int)" where
  "page_params skip limit =
     (case (skip_param skip, limit_param limit) of
        (Inr s, Inr l) \<Rightarrow> Inr (s, l)
      | (a, b) \<Rightarrow> Inl (ValidationError (errors_of a @ errors_of b)))"

text \<open>
  \<open>query.offset(skip).limit(limit).all()\<close> on the rows in table order. \<open>skip\<close> and
  \<open>limit\<close> are Python integers of any size, while \<open>OFFSET\<close> and \<open>LIMIT\<close> are signed
  64-bit integers of the database: a larger value makes the query raise. The
  handlers call it with \<open>skip \<ge> 0\<close> and \<open>limit \<ge> 1\<close> only.
\<close>

definition int64_max :: int where
  "int64_max = 9223372036854775807"

definition offset_limit :: "int \<Rightarrow> int \<Rightarrow> 'a list \<Rightarrow> error + 'a list" where
  "offset_limit skip limit rows =
     (if skip > int64_max \<or> limit > int64_max then Inl DataError
      else Inr (take (nat limit) (drop (nat skip) rows)))"

subsection \<open>City schemas (schemas/geo.py)\<close>

text \<open>\<open>Field(min_length=lo, max_length=hi)\<close> on a string.\<close>

definition str_length_ok :: "nat \<Rightarrow> nat \<Rightarrow> string \<Rightarrow> bool" where
  "str_length_ok lo hi v \<longleftrightarrow> lo \<le> length v \<and> length v \<le> hi"

text \<open>
  A required field of type \<open>str\<close> (\<open>Field(...)\<close>): a missing key and null are errors.
  The result is the list of the field's errors.
\<close>

definition required_str :: "string \<Rightarrow> nat \<Rightarrow> nat \<Rightarrow> string field \<Rightarrow> string list" where
  "required_str fname lo hi f =
     (case f of
        Absent \<Rightarrow> [fname]
      | Null \<Rightarrow> [fname]
      | Value v \<Rightarrow> if str_length_ok lo hi v then [] else [fname])"

text \<open>
  A field of type \<open>Optional[str]\<close> with default \<open>None\<close>: a missing key and null both
  pass, a string is checked.
\<close>

definition optional_str :: "string \<Rightarrow> nat \<Rightarrow> nat \<Rightarrow> string field \<Rightarrow> string list" where
  "optional_str fname lo hi f =
     (case f of
        Absent \<Rightarrow> []
      | Null \<Rightarrow> []
      | Value v \<Rightarrow> if str_length_ok lo hi v then [] else [fname])"

text \<open>
  \<open>CityBase\<close>/\<open>CityCreate\<close>: \<open>name\<close> is required, 2 to 255 characters; \<open>country\<close> is a
  \<open>str\<close> of at most 100 characters whose default \<open>"Colombia"\<close> is taken, unvalidated,
  when the key is missing.
\<close>

record city_create =
  cc_name :: string
  cc_country :: string

definition country_errors :: "string field \<Rightarrow> string list" where
  "country_errors f =
     (case f of
        Absent \<Rightarrow> []
      | Null \<Rightarrow> [''country'']
      | Value v \<Rightarrow> if str_length_ok 0 100 v then [] else [''country''])"

definition CityCreate :: "string field \<Rightarrow> string field \<Rightarrow> error + city_create" where
  "CityCreate name country =
     (let errs = required_str ''name'' 2 255 name @ country_errors country
      in if errs \<noteq> [] then Inl (ValidationError errs)
         else Inr \<lparr>cc_name = (case name of Value v \<Rightarrow> v | _ \<Rightarrow> []),
                   cc_country = (case country of Value v \<Rightarrow> v | _ \<Rightarrow> ''Colombia'')\<rparr>)"

text \<open>
  \<open>CityUpdate\<close>: three optional fields. The validated model remembers which keys the
  payload had (\<open>model_fields_set\<close>), so it is the three fields as given.
\<close>

record city_update =
  cu_name :: "string field"
  cu_country :: "string field"
  cu_is_active :: "bool field"

definition CityUpdate :: "string field \<Rightarrow> string field \<Rightarrow> bool field \<Rightarrow> error + city_update" where
  "CityUpdate name country is_active =
     (let errs = optional_str ''name'' 2 255 name @ optional_str ''country'' 0 100 country
      in if errs \<noteq> [] then Inl (ValidationError errs)
         else Inr \<lparr>cu_name = name, cu_country = country, cu_is_active = is_active\<rparr>)"

text \<open>
  \<open>CityResponse\<close> (\<open>from_attributes\<close>) reads \<open>name\<close> and \<open>country\<close> under the constraints
  of \<open>CityBase\<close>, and \<open>id\<close>, \<open>is_active\<close>, \<open>created_at\<close>. It has no other field.
\<close>

record city_response =
  cr_id :: int
  cr_name :: string
  cr_country :: string
  cr_is_active :: bool
  cr_created_at :: nat

definition CityResponse :: "city \<Rightarrow> error + city_response" where
  "CityResponse c =
     (if str_length_ok 2 255 (c_name c) \<and> str_length_ok 0 100 (c_country c)
      then Inr \<lparr>cr_id = c_id c, cr_name = c_name c, cr_country = c_country c,
                cr_is_active = c_is_active c, cr_created_at = c_created_at c\<rparr>
      else Inl ResponseValidationError)"

subsection \<open>Zone schemas (schemas/geo.py)\<close>

text \<open>The pattern \<open>^#[0-9A-Fa-f]{6}$\<close> of the two \<open>color\<close> fields.\<close>

definition hex_digit :: "char \<Rightarrow> bool" where
  "hex_digit c \<longleftrightarrow> c \<in> set ''0123456789ABCDEFabcdef''"

definition color_pattern :: "string \<Rightarrow> bool" where
  "color_pattern v \<longleftrightarrow>
     (case v of [] \<Rightarrow> False
      | h # ds \<Rightarrow> h = CHR ''#'' \<and> length ds = 6 \<and> list_all hex_digit ds)"

text \<open>
  \<open>str.upper()\<close>. The validator runs after the pattern, so it only meets \<open>#\<close> and
  hexadecimal digits; on ASCII, \<open>upper\<close> maps a to z onto A to Z and keeps the rest.
\<close>

definition upper_char :: "char \<Rightarrow> char" where
  "upper_char c =
     (case map_of (zip ''abcdefghijklmnopqrstuvwxyz'' ''ABCDEFGHIJKLMNOPQRSTUVWXYZ'') c of
        None \<Rightarrow> c
      | Some u \<Rightarrow> u)"

definition upper :: "string \<Rightarrow> string" where
  "upper v = map upper_char v"

text \<open>\<open>ZoneBase.validate_color\<close>.\<close>

definition validate_color :: "string \<Rightarrow> string + string" where
  "validate_color v =
     (if \<not> (take 1 v = ''#'') then Inl ''El color debe comenzar con #''
      else if length v \<noteq> 7 then Inl ''El color debe tener formato #RRGGBB''
      else Inr (upper v))"

text \<open>
  The \<open>color\<close> field of \<open>ZoneBase\<close>: \<open>str\<close> with default \<open>"#3498db"\<close>. A missing key
  takes the default as it is written (defaults are not validated); null is not a
  \<open>str\<close>; a string goes through the pattern and then through \<open>validate_color\<close>.
\<close>

definition ZoneBase_color :: "string field \<Rightarrow> string list + string" where
  "ZoneBase_color f =
     (case f of
        Absent \<Rightarrow> Inr ''#3498db''
      | Null \<Rightarrow> Inl [''color'']
      | Value v \<Rightarrow>
          if \<not> color_pattern v then Inl [''color'']
          else (case validate_color v of
                  Inl msg \<Rightarrow> Inl [''color'']
                | Inr v' \<Rightarrow> Inr v'))"

text \<open>\<open>city_id: int = Field(..., gt=0)\<close>.\<close>

definition required_city_id :: "int field \<Rightarrow> string list" where
  "required_city_id f =
     (case f of
        Absent \<Rightarrow> [''city_id'']
      | Null \<Rightarrow> [''city_id'']
      | Value v \<Rightarrow> if v > 0 then [] else [''city_id''])"

text \<open>\<open>description: Optional[str] = Field(None)\<close>.\<close>

definition description_value :: "string field \<Rightarrow> string option" where
  "description_value f = (case f of Absent \<Rightarrow> None | Null \<Rightarrow> None | Value v \<Rightarrow> Some v)"

record zone_create =
  zc_name :: string
  zc_city_id :: int
  zc_color :: string
  zc_description :: "string option"

definition ZoneCreate ::
  "string field \<Rightarrow> int field \<Rightarrow> string field \<Rightarrow> string field \<Rightarrow> error + zone_create" where
  "ZoneCreate name city_id color description =
     (let errs = required_str ''name'' 2 255 name @ required_city_id city_id
                 @ errors_of (ZoneBase_color color)
      in if errs \<noteq> [] then Inl (ValidationError errs)
         else Inr \<lparr>zc_name = (case name of Value v \<Rightarrow> v | _ \<Rightarrow> []),
                   zc_city_id = (case city_id of Value v \<Rightarrow> v | _ \<Rightarrow> 0),
                   zc_color = (case ZoneBase_color color of Inr v \<Rightarrow> v | Inl es \<Rightarrow> []),
                   zc_description = description_value description\<rparr>)"

text \<open>
  \<open>ZoneUpdate\<close> derives from \<open>BaseModel\<close>, not from \<open>ZoneBase\<close>: five optional fields,
  \<open>color\<close> with the pattern alone.
\<close>

record zone_update =
  zu_name :: "string field"
  zu_city_id :: "int field"
  zu_color :: "string field"
  zu_description :: "string field"
  zu_is_active :: "bool field"

definition optional_city_id :: "int field \<Rightarrow> string list" where
  "optional_city_id f =
     (case f of
        Absent \<Rightarrow> []
      | Null \<Rightarrow> []
      | Value v \<Rightarrow> if v > 0 then [] else [''city_id''])"

definition optional_color :: "string field \<Rightarrow> string list" where
  "optional_color f =
     (case f of
        Absent \<Rightarrow> []
      | Null \<Rightarrow> []
      | Value v \<Rightarrow> if color_pattern v then [] else [''color''])"

definition ZoneUpdate ::
  "string field \<Rightarrow> int field \<Rightarrow> string field \<Rightarrow> string field \<Rightarrow> bool field
   \<Rightarrow> error + zone_update" where
  "ZoneUpdate name city_id color description is_active =
     (let errs = optional_str ''name'' 2 255 name @ optional_city_id city_id
                 @ optional_color color
      in if errs \<noteq> [] then Inl (ValidationError errs)
         else Inr \<lparr>zu_name = name, zu_city_id = city_id, zu_color = color,
                   zu_description = description, zu_is_active = is_active\<rparr>)"

text \<open>
  \<open>ZoneResponse\<close> derives from \<open>ZoneBase\<close> (\<open>from_attributes\<close>): the row's \<open>name\<close>,
  \<open>city_id\<close> and \<open>color\<close> go through the constraints and the validator of \<open>ZoneBase\<close>,
  so the response carries the upper-cased colour. It adds \<open>id\<close>, \<open>is_active\<close> and
  \<open>created_at\<close>, and has no other field.
\<close>

record zone_response =
  zr_id :: int
  zr_name :: string
  zr_city_id :: int
  zr_color :: string
  zr_description :: "string option"
  zr_is_active :: bool
  zr_created_at :: nat

definition ZoneResponse :: "zone \<Rightarrow> error + zone_response" where
  "ZoneResponse z =
     (if str_length_ok 2 255 (z_name z) \<and> z_city_id z > 0
      then (case ZoneBase_color (Value (z_color z)) of
              Inl es \<Rightarrow> Inl ResponseValidationError
            | Inr col \<Rightarrow>
                Inr \<lparr>zr_id = z_id z, zr_name = z_name z, zr_city_id = z_city_id z,
                     zr_color = col, zr_description = z_description z,
                     zr_is_active = z_is_active z, zr_created_at = z_created_at z\<rparr>)
      else Inl ResponseValidationError)"

text \<open>\<open>ZoneWithCityResponse\<close>: \<open>ZoneResponse\<close> and two unconstrained strings.\<close>

record zone_with_city_response = zone_response +
  zr_city_name :: string
  zr_city_country :: string

definition ZoneWithCityResponse :: "zone \<Rightarrow> string \<Rightarrow> string \<Rightarrow> error + zone_with_city_response" where
  "ZoneWithCityResponse z city_name city_country =
     (case ZoneResponse z of
        Inl e \<Rightarrow> Inl e
      | Inr r \<Rightarrow> Inr (zone_response.extend r
                        \<lparr>zr_city_name = city_name, zr_city_country = city_country\<rparr>))"

text \<open>\<open>CityWithZonesResponse\<close>: \<open>CityResponse\<close>, the zones and their count.\<close>

record city_with_zones_response = city_response +
  cr_zones :: "zone_response list"
  cr_total_zones :: nat

definition CityWithZonesResponse ::
  "city \<Rightarrow> zone_response list \<Rightarrow> nat \<Rightarrow> error + city_with_zones_response" where
  "CityWithZonesResponse c zs n =
     (case CityResponse c of
        Inl e \<Rightarrow> Inl e
      | Inr r \<Rightarrow> Inr (city_response.extend r \<lparr>cr_zones = zs, cr_total_zones = n\<rparr>))"

subsection \<open>The store: what \<open>db.commit()\<close> does (models/city.py, models/zone.py)\<close>

text \<open>
  The column constraints the models declare, checked by the database when a statement
  is flushed: \<open>nullable=False\<close> (\<open>NotNullViolation\<close>), \<open>unique=True\<close> on \<open>cities.name\<close>
  (\<open>UniqueViolation\<close>) and \<open>ForeignKey("cities.id")\<close> on \<open>zones.city_id\<close>
  (\<open>ForeignKeyViolation\<close>). The models declare no uniqueness on zones beyond the
  primary key. A refused statement raises \<open>IntegrityError\<close> and writes nothing.
\<close>

text \<open>
  \<open>db.add(City(name=..., country=...)); db.commit(); db.refresh(new_city)\<close>:
  the id comes from the sequence, \<open>is_active\<close> from the column default,
  both timestamps from \<open>server_default=func.now()\<close>.
\<close>

definition insert_city :: "db \<Rightarrow> string \<Rightarrow> string \<Rightarrow> nat \<Rightarrow> error + (db \<times> city)" where
  "insert_city d name country now =
     (if find (\<lambda>c. c_name c = name) (cities d) \<noteq> None
      then Inl (IntegrityError UniqueViolation)
      else let row = \<lparr>c_id = next_city_id d, c_name = name, c_country = country,
                        c_is_active = True, c_created_at = now, c_updated_at = now\<rparr>
           in Inr (d\<lparr>cities := cities d @ [row], next_city_id := next_city_id d + 1\<rparr>, row))"

definition insert_zone ::
  "db \<Rightarrow> string \<Rightarrow> int \<Rightarrow> string \<Rightarrow> string option \<Rightarrow> nat \<Rightarrow> error + (db \<times> zone)" where
  "insert_zone d name city_id color description now =
     (if find (\<lambda>c. c_id c = city_id) (cities d) = None
      then Inl (IntegrityError ForeignKeyViolation)
      else let row = \<lparr>z_id = next_zone_id d, z_name = name, z_city_id = city_id,
                        z_color = color, z_description = description, z_is_active = True,
                        z_created_at = now, z_updated_at = now\<rparr>
           in Inr (d\<lparr>zones := zones d @ [row], next_zone_id := next_zone_id d + 1\<rparr>, row))"

text \<open>
  The loaded ORM object of an update: the attributes \<open>setattr\<close> can reach, each
  possibly \<open>None\<close>. \<open>description\<close> is a nullable column, so its \<open>None\<close> is a value.
\<close>

record city_obj =
  co_name :: "string option"
  co_country :: "string option"
  co_is_active :: "bool option"

record zone_obj =
  zo_name :: "string option"
  zo_city_id :: "int option"
  zo_color :: "string option"
  zo_description :: "string option"
  zo_is_active :: "bool option"

definition load_city :: "city \<Rightarrow> city_obj" where
  "load_city c = \<lparr>co_name = Some (c_name c), co_country = Some (c_country c),
                  co_is_active = Some (c_is_active c)\<rparr>"

definition load_zone :: "zone \<Rightarrow> zone_obj" where
  "load_zone z = \<lparr>zo_name = Some (z_name z), zo_city_id = Some (z_city_id z),
                  zo_color = Some (z_color z), zo_description = z_description z,
                  zo_is_active = Some (z_is_active z)\<rparr>"

text \<open>
  \<open>db.commit(); db.refresh(city)\<close> after the \<open>setattr\<close> loop. No column changed: no
  UPDATE is sent and the row stays as it is. Otherwise the UPDATE is checked (not
  null, then the unique name against the other rows) and \<open>onupdate=func.now()\<close>
  sets \<open>updated_at\<close>.
\<close>

definition replace_city :: "city \<Rightarrow> city list \<Rightarrow> city list" where
  "replace_city row cs = map (\<lambda>c. if c_id c = c_id row then row else c) cs"

definition replace_zone :: "zone \<Rightarrow> zone list \<Rightarrow> zone list" where
  "replace_zone row zs = map (\<lambda>z. if z_id z = z_id row then row else z) zs"

definition commit_city :: "db \<Rightarrow> city \<Rightarrow> city_obj \<Rightarrow> nat \<Rightarrow> error + (db \<times> city)" where
  "commit_city d old obj now =
     (if obj = load_city old then Inr (d, old)
      else case (co_name obj, co_country obj, co_is_active obj) of
        (Some name, Some country, Some is_active) \<Rightarrow>
          if name \<noteq> c_name old
             \<and> find (\<lambda>c. c_id c \<noteq> c_id old \<and> c_name c = name) (cities d) \<noteq> None
          then Inl (IntegrityError UniqueViolation)
          else let row = old\<lparr>c_name := name, c_country := country,
                               c_is_active := is_active, c_updated_at := now\<rparr>
               in Inr (d\<lparr>cities := replace_city row (cities d)\<rparr>, row)
      | _ \<Rightarrow> Inl (IntegrityError NotNullViolation))"

definition commit_zone :: "db \<Rightarrow> zone \<Rightarrow> zone_obj \<Rightarrow> nat \<Rightarrow> error + (db \<times> zone)" where
  "commit_zone d old obj now =
     (if obj = load_zone old then Inr (d, old)
      else case (zo_name obj, zo_city_id obj, zo_color obj, zo_is_active obj) of
        (Some name, Some city_id, Some color, Some is_active) \<Rightarrow>
          if city_id \<noteq> z_city_id old \<and> find (\<lambda>c. c_id c = city_id) (cities d) = None
          then Inl (IntegrityError ForeignKeyViolation)
          else let row = old\<lparr>z_name := name, z_city_id := city_id, z_color := color,
                               z_description := zo_description obj,
                               z_is_active := is_active, z_updated_at := now\<rparr>
               in Inr (d\<lparr>zones := replace_zone row (zones d)\<rparr>, row)
      | _ \<Rightarrow> Inl (IntegrityError NotNullViolation))"

subsection \<open>City handlers (routers/geo.py)\<close>

text \<open>A list of results is a list of values unless one of them is an error.\<close>

fun collect :: "(error + 'a) list \<Rightarrow> error + 'a list" where
  "collect [] = Inr []"
| "collect (x # xs) =
     (case x of
        Inl e \<Rightarrow> Inl e
      | Inr v \<Rightarrow> (case collect xs of Inl e \<Rightarrow> Inl e | Inr vs \<Rightarrow> Inr (v # vs)))"

text \<open>\<open>query.filter(City.is_active == is_active)\<close> when \<open>is_active is not None\<close>.\<close>

definition filter_active :: "('a \<Rightarrow> bool) \<Rightarrow> bool option \<Rightarrow> 'a list \<Rightarrow> 'a list" where
  "filter_active active is_active rows =
     (case is_active of None \<Rightarrow> rows | Some b \<Rightarrow> filter (\<lambda>r. active r = b) rows)"

definition get_cities :: "int option \<Rightarrow> int option \<Rightarrow> bool option \<Rightarrow> db \<Rightarrow> error + city list" where
  "get_cities skip limit is_active d =
     (case page_params skip limit of
        Inl e \<Rightarrow> Inl e
      | Inr (s, l) \<Rightarrow>
          let query = filter_active c_is_active is_active (cities d)
          in offset_limit s l query)"

definition get_city_with_zones :: "int \<Rightarrow> db \<Rightarrow> error + city_with_zones_response" where
  "get_city_with_zones city_id d =
     (case find (\<lambda>c. c_id c = city_id) (cities d) of
        None \<Rightarrow> Inl NotFound
      | Some city \<Rightarrow>
          let zs = filter (\<lambda>z. z_city_id z = city_id \<and> z_is_active z = True) (zones d)
          in (case collect (map ZoneResponse zs) of
                Inl e \<Rightarrow> Inl e
              | Inr rs \<Rightarrow> CityWithZonesResponse city rs (length zs)))"

text \<open>
  \<open>create_city\<close>. The query of the pre-check and the commit are two statements; \<open>seen\<close>
  is the store the query read and \<open>d\<close> the store the commit meets. In a request that
  no other write interleaves they are the same store.
\<close>

definition create_city_at :: "city_create \<Rightarrow> db \<Rightarrow> db \<Rightarrow> nat \<Rightarrow> error + (db \<times> city)" where
  "create_city_at city_data seen d now =
     (case find (\<lambda>c. c_name c = cc_name city_data) (cities seen) of
        Some existing \<Rightarrow> Inl Conflict
      | None \<Rightarrow> insert_city d (cc_name city_data) (cc_country city_data) now)"

definition create_city :: "city_create \<Rightarrow> db \<Rightarrow> nat \<Rightarrow> error + (db \<times> city)" where
  "create_city city_data d now = create_city_at city_data d d now"

text \<open>
  \<open>update_city\<close>. \<open>model_dump(exclude_unset=True)\<close> lists the fields the payload had,
  in the order of the schema, null included; the loop assigns each to the object.
\<close>

datatype city_attr = Name "string option" | Country "string option" | Is_active "bool option"

definition dump_field :: "('a option \<Rightarrow> 'b) \<Rightarrow> 'a field \<Rightarrow> 'b list" where
  "dump_field attr f =
     (case f of Absent \<Rightarrow> [] | Null \<Rightarrow> [attr None] | Value v \<Rightarrow> [attr (Some v)])"

definition city_update_dump :: "city_update \<Rightarrow> city_attr list" where
  "city_update_dump u =
     dump_field Name (cu_name u) @ dump_field Country (cu_country u)
     @ dump_field Is_active (cu_is_active u)"

fun setattr_city :: "city_obj \<Rightarrow> city_attr \<Rightarrow> city_obj" where
  "setattr_city obj (Name v) = obj\<lparr>co_name := v\<rparr>"
| "setattr_city obj (Country v) = obj\<lparr>co_country := v\<rparr>"
| "setattr_city obj (Is_active v) = obj\<lparr>co_is_active := v\<rparr>"

definition update_city :: "int \<Rightarrow> city_update \<Rightarrow> db \<Rightarrow> nat \<Rightarrow> error + (db \<times> city)" where
  "update_city city_id city_data d now =
     (case find (\<lambda>c. c_id c = city_id) (cities d) of
        None \<Rightarrow> Inl NotFound
      | Some city \<Rightarrow>
          let update_data = city_update_dump city_data;
              obj = foldl setattr_city (load_city city) update_data
          in commit_city d city obj now)"

subsection \<open>Zone handlers (routers/geo.py)\<close>

text \<open>\<open>db.query(Zone, City).join(City, Zone.city_id == City.id)\<close>.\<close>

definition zone_city_join :: "db \<Rightarrow> (zone \<times> city) list" where
  "zone_city_join d =
     concat (map (\<lambda>z. map (\<lambda>c. (z, c)) (filter (\<lambda>c. z_city_id z = c_id c) (cities d)))
                 (zones d))"

definition get_zones ::
  "int option \<Rightarrow> int option \<Rightarrow> int option \<Rightarrow> bool option \<Rightarrow> db
   \<Rightarrow> error + zone_with_city_response list" where
  "get_zones city_id skip limit is_active d =
     (case page_params skip limit of
        Inl e \<Rightarrow> Inl e
      | Inr (s, l) \<Rightarrow>
          let query = zone_city_join d;
              query = (case city_id of None \<Rightarrow> query
                       | Some i \<Rightarrow> filter (\<lambda>(z, c). z_city_id z = i) query);
              query = filter_active (\<lambda>(z, c). z_is_active z) is_active query
          in (case offset_limit s l query of
                Inl e \<Rightarrow> Inl e
              | Inr rows \<Rightarrow>
                  collect (map (\<lambda>(z, c). ZoneWithCityResponse z (c_name c) (c_country c))
                               rows)))"

definition get_zone :: "int \<Rightarrow> db \<Rightarrow> error + zone_with_city_response" where
  "get_zone zone_id d =
     (case find (\<lambda>(z, c). z_id z = zone_id) (zone_city_join d) of
        None \<Rightarrow> Inl NotFound
      | Some (z, c) \<Rightarrow> ZoneWithCityResponse z (c_name c) (c_country c))"

definition create_zone :: "zone_create \<Rightarrow> db \<Rightarrow> nat \<Rightarrow> error + (db \<times> zone)" where
  "create_zone zone_data d now =
     (case find (\<lambda>c. c_id c = zc_city_id zone_data) (cities d) of
        None \<Rightarrow> Inl NotFound
      | Some city \<Rightarrow>
          (case find (\<lambda>z. z_name z = zc_name zone_data \<and> z_city_id z = zc_city_id zone_data)
                     (zones d) of
             Some existing \<Rightarrow> Inl Conflict
           | None \<Rightarrow>
               insert_zone d (zc_name zone_data) (zc_city_id zone_data) (zc_color zone_data)
                 (zc_description zone_data) now))"

datatype zone_attr =
    ZName "string option"
  | ZCity_id "int option"
  | ZColor "string option"
  | ZDescription "string option"
  | ZIs_active "bool option"

definition zone_update_dump :: "zone_update \<Rightarrow> zone_attr list" where
  "zone_update_dump u =
     dump_field ZName (zu_name u) @ dump_field ZCity_id (zu_city_id u)
     @ dump_field ZColor (zu_color u) @ dump_field ZDescription (zu_description u)
     @ dump_field ZIs_active (zu_is_active u)"

fun setattr_zone :: "zone_obj \<Rightarrow> zone_attr \<Rightarrow> zone_obj" where
  "setattr_zone obj (ZName v) = obj\<lparr>zo_name := v\<rparr>"
| "setattr_zone obj (ZCity_id v) = obj\<lparr>zo_city_id := v\<rparr>"
| "setattr_zone obj (ZColor v) = obj\<lparr>zo_color := v\<rparr>"
| "setattr_zone obj (ZDescription v) = obj\<lparr>zo_description := v\<rparr>"
| "setattr_zone obj (ZIs_active v) = obj\<lparr>zo_is_active := v\<rparr>"

definition update_zone :: "int \<Rightarrow> zone_update \<Rightarrow> db \<Rightarrow> nat \<Rightarrow> error + (db \<times> zone)" where
  "update_zone zone_id zone_data d now =
     (case find (\<lambda>z. z_id z = zone_id) (zones d) of
        None \<Rightarrow> Inl NotFound
      | Some zone \<Rightarrow>
          let update_data = zone_update_dump zone_data;
              obj = foldl setattr_zone (load_zone zone) update_data
          in commit_zone d zone obj now)"

subsection \<open>The routes: request schema, handler, response schema\<close>

text \<open>
  What each route does with a request body: the body is decoded by the handler's
  request schema (a failure is the 422 answer and the handler does not run), the
  handler runs, and the row it returns is serialised by the route's
  \<open>response_model\<close>. The result is the store after the request and the answer.
\<close>

definition post_cities ::
  "string field \<Rightarrow> string field \<Rightarrow> db \<Rightarrow> nat \<Rightarrow> db \<times> (error + city_response)" where
  "post_cities name country d now =
     (case CityCreate name country of
        Inl e \<Rightarrow> (d, Inl e)
      | Inr city_data \<Rightarrow>
          (case create_city city_data d now of
             Inl e \<Rightarrow> (d, Inl e)
           | Inr (d', row) \<Rightarrow> (d', CityResponse row)))"

definition put_cities ::
  "int \<Rightarrow> string field \<Rightarrow> string field \<Rightarrow> bool field \<Rightarrow> db \<Rightarrow> nat
   \<Rightarrow> db \<times> (error + city_response)" where
  "put_cities city_id name country is_active d now =
     (case CityUpdate name country is_active of
        Inl e \<Rightarrow> (d, Inl e)
      | Inr city_data \<Rightarrow>
          (case update_city city_id city_data d now of
             Inl e \<Rightarrow> (d, Inl e)
           | Inr (d', row) \<Rightarrow> (d', CityResponse row)))"

definition post_zones ::
  "string field \<Rightarrow> int field \<Rightarrow> string field \<Rightarrow> string field \<Rightarrow> db \<Rightarrow> nat
   \<Rightarrow> db \<times> (error + zone_response)" where
  "post_zones name city_id color description d now =
     (case ZoneCreate name city_id color description of
        Inl e \<Rightarrow> (d, Inl e)
      | Inr zone_data \<Rightarrow>
          (case create_zone zone_data d now of
             Inl e \<Rightarrow> (d, Inl e)
           | Inr (d', row) \<Rightarrow> (d', ZoneResponse row)))"

definition put_zones ::
  "int \<Rightarrow> string field \<Rightarrow> int field \<Rightarrow> string field \<Rightarrow> string field \<Rightarrow> bool field
   \<Rightarrow> db \<Rightarrow> nat \<Rightarrow> db \<times> (error + zone_response)" where
  "put_zones zone_id name city_id color description is_active d now =
     (case ZoneUpdate name city_id color description is_active of
        Inl e \<Rightarrow> (d, Inl e)
      | Inr zone_data \<Rightarrow>
          (case update_zone zone_id zone_data d now of
             Inl e \<Rightarrow> (d, Inl e)
           | Inr (d', row) \<Rightarrow> (d', ZoneResponse row)))"

definition list_cities ::
  "int option \<Rightarrow> int option \<Rightarrow> bool option \<Rightarrow> db \<Rightarrow> error + city_response list" where
  "list_cities skip limit is_active d =
     (case get_cities skip limit is_active d of
        Inl e \<Rightarrow> Inl e
      | Inr rows \<Rightarrow> collect (map CityResponse rows))"

subsection \<open>The store of the test suite (tests/test_geo.py, setup_database)\<close>

text \<open>
  Two cities and three zones of the first one, written in ASCII; every timestamp
  is 0.
\<close>

definition test_db :: db where
  "test_db =
     \<lparr>cities =
        [\<lparr>c_id = 1, c_name = ''Bogota'', c_country = ''Colombia'', c_is_active = True,
          c_created_at = 0, c_updated_at = 0\<rparr>,
         \<lparr>c_id = 2, c_name = ''Medellin'', c_country = ''Colombia'', c_is_active = True,
          c_created_at = 0, c_updated_at = 0\<rparr>],
      zones =
        [\<lparr>z_id = 1, z_name = ''Norte'', z_city_id = 1, z_color = ''#E74C3C'',
          z_description = Some ''Zona norte'', z_is_active = True,
          z_created_at = 0, z_updated_at = 0\<rparr>,
         \<lparr>z_id = 2, z_name = ''Centro'', z_city_id = 1, z_color = ''#F39C12'',
          z_description = Some ''Zona centro'', z_is_active = True,
          z_created_at = 0, z_updated_at = 0\<rparr>,
         \<lparr>z_id = 3, z_name = ''Sur'', z_city_id = 1, z_color = ''#27AE60'',
          z_description = Some ''Zona sur'', z_is_active = True,
          z_created_at = 0, z_updated_at = 0\<rparr>],
      next_city_id = 3,
      next_zone_id = 4\<rparr>"

text \<open>
  The same store with two more zones: an inactive one in the first city and an
  active one in the second.
\<close>

definition test_db_inactive :: db where
  "test_db_inactive =
     test_db\<lparr>zones := zones test_db @
        [\<lparr>z_id = 4, z_name = ''Occidente'', z_city_id = 1, z_color = ''#8E44AD'',
          z_description = None, z_is_active = False, z_created_at = 0, z_updated_at = 0\<rparr>,
         \<lparr>z_id = 5, z_name = ''Norte'', z_city_id = 2, z_color = ''#2980B9'',
          z_description = None, z_is_active = True, z_created_at = 0, z_updated_at = 0\<rparr>],
       next_zone_id := 6\<rparr>"

subsection \<open>Properties of a store\<close>

text \<open>The key \<open>(name, city_id)\<close> of every zone, in row order.\<close>

definition zone_keys :: "db \<Rightarrow> (string \<times> int) list" where
  "zone_keys d = map (\<lambda>z. (z_name z, z_city_id z)) (zones d)"

text \<open>The ids of the cities.\<close>

definition city_ids :: "db \<Rightarrow> int set" where
  "city_ids d = c_id ` set (cities d)"

text \<open>The pattern \<open>^#[0-9A-F]{6}$\<close>.\<close>

definition upper_hex_color :: "string \<Rightarrow> bool" where
  "upper_hex_color v \<longleftrightarrow>
     (case v of [] \<Rightarrow> False
      | h # ds \<Rightarrow> h = CHR ''#'' \<and> length ds = 6
                 \<and> list_all (\<lambda>c. c \<in> set ''0123456789ABCDEF'') ds)"

text \<open>
  A row that passes its response schema: the constraints the request schemas put on
  every value a route writes.
\<close>

definition city_row_ok :: "city \<Rightarrow> bool" where
  "city_row_ok c \<longleftrightarrow> str_length_ok 2 255 (c_name c) \<and> str_length_ok 0 100 (c_country c)"

definition zone_row_ok :: "zone \<Rightarrow> bool" where
  "zone_row_ok z \<longleftrightarrow>
     str_length_ok 2 255 (z_name z) \<and> z_city_id z > 0 \<and> color_pattern (z_color z)"

definition rows_ok :: "db \<Rightarrow> bool" where
  "rows_ok d \<longleftrightarrow> list_all city_row_ok (cities d) \<and> list_all zone_row_ok (zones d)"

text \<open>The store with other values in the two \<open>updated_at\<close> columns.\<close>

definition touch :: "(city \<Rightarrow> nat) \<Rightarrow> (zone \<Rightarrow> nat) \<Rightarrow> db \<Rightarrow> db" where
  "touch f g d =
     d\<lparr>cities := map (\<lambda>c. c\<lparr>c_updated_at := f c\<rparr>) (cities d),
       zones := map (\<lambda>z. z\<lparr>z_updated_at := g z\<rparr>) (zones d)\<rparr>"

text \<open>Every zone references a city of the store.\<close>

definition references_ok :: "db \<Rightarrow> bool" where
  "references_ok d \<longleftrightarrow> z_city_id ` set (zones d) \<subseteq> city_ids d"

section \<open>Coordinate validation\<close>

text \<open>
  Claim C4. \<open>validate_coordinates\<close> accepts a pair exactly when
  \<open>-5 \<le> latitude \<le> 13\<close> and \<open>-80 \<le> longitude \<le> -66\<close>. Every other pair, inside the
  bounds \<open>[-90, 90] \<times> [-180, 180]\<close> of the fields or outside them, is rejected with a
  validation error (status 422); nothing is clamped. An accepted pair is answered by
  the same latitude and longitude, \<open>is_valid = True\<close> and the configured default
  country. The handler has no access to the store, so nothing is persisted.
\<close>

theorem validate_coordinates_operating_box:
  "((\<exists>r. validate_coordinates lat lon = Inr r)
      \<longleftrightarrow> (-5 \<le> lat \<and> lat \<le> 13 \<and> -80 \<le> lon \<and> lon \<le> -66))
   \<and> (\<forall>r. validate_coordinates lat lon = Inr r \<longrightarrow>
          r = \<lparr>r_latitude = lat, r_longitude = lon, r_is_valid = True,
               r_country = DEFAULT_COUNTRY\<rparr>)
   \<and> (\<forall>e. validate_coordinates lat lon = Inl e \<longrightarrow> status_code e = 422)"
  by (auto simp: validate_coordinates_def CoordinateResponse_def CoordinateValidation_def
        latitude_errors_def longitude_errors_def latitude_field_ok_def longitude_field_ok_def
        validate_latitude_colombia_def validate_longitude_colombia_def Let_def
      split: if_splits sum.splits)

theorem validate_coordinates_operating_box_witness:
  "validate_coordinates 4.61 (-74.08)
     = Inr \<lparr>r_latitude = 4.61, r_longitude = -74.08, r_is_valid = True,
            r_country = ''Colombia''\<rparr>
   \<and> (\<nexists>r. validate_coordinates 40.71 (-74.01) = Inr r)
   \<and> (\<nexists>r. validate_coordinates 100 (-74.0) = Inr r)
   \<and> (\<nexists>r. validate_coordinates 4.6 (-200) = Inr r)"
proof -
  have "\<exists>r. validate_coordinates 4.61 (-74.08) = Inr r"
    using validate_coordinates_operating_box [of "4.61" "-74.08"] by simp
  then have "validate_coordinates 4.61 (-74.08)
     = Inr \<lparr>r_latitude = 4.61, r_longitude = -74.08, r_is_valid = True,
            r_country = ''Colombia''\<rparr>"
    using validate_coordinates_operating_box [of "4.61" "-74.08"]
    by (auto simp: DEFAULT_COUNTRY_def)
  moreover have "\<nexists>r. validate_coordinates 40.71 (-74.01) = Inr r"
    using validate_coordinates_operating_box [of "40.71" "-74.01"] by simp
  moreover have "\<nexists>r. validate_coordinates 100 (-74.0) = Inr r"
    using validate_coordinates_operating_box [of 100 "-74.0"] by simp
  moreover have "\<nexists>r. validate_coordinates 4.6 (-200) = Inr r"
    using validate_coordinates_operating_box [of "4.6" "-200"] by simp
  ultimately show ?thesis by blast
qed

section \<open>Response schemas and lists of results\<close>

lemma collect_map_Inr:
  "collect (map f xs) = Inr rs \<Longrightarrow> list_all2 (\<lambda>x r. f x = Inr r) xs rs"
  by (induction xs arbitrary: rs) (auto split: sum.splits)

lemma collect_map_total:
  "\<forall>x \<in> set xs. \<exists>r. f x = Inr r \<Longrightarrow> \<exists>rs. collect (map f xs) = Inr rs"
  by (induction xs) (auto split: sum.splits)

lemma collect_map_Inl:
  "collect (map f xs) = Inl e \<Longrightarrow> \<exists>x \<in> set xs. f x = Inl e"
  by (induction xs) (auto split: sum.splits)

lemma collect_map_length:
  "collect (map f xs) = Inr rs \<Longrightarrow> length rs = length xs"
  by (drule collect_map_Inr) (simp add: list_all2_lengthD)

lemma color_pattern_validate:
  "color_pattern v \<Longrightarrow> validate_color v = Inr (upper v)"
  by (cases v) (auto simp: color_pattern_def validate_color_def)

lemma ZoneBase_color_Value:
  "color_pattern v \<Longrightarrow> ZoneBase_color (Value v) = Inr (upper v)"
  by (simp add: ZoneBase_color_def color_pattern_validate)

lemma ZoneResponse_ok:
  "zone_row_ok z \<Longrightarrow> \<exists>r. ZoneResponse z = Inr r"
  by (simp add: zone_row_ok_def ZoneResponse_def ZoneBase_color_Value)

lemma ZoneResponse_fields:
  "ZoneResponse z = Inr r \<Longrightarrow>
     zr_id r = z_id z \<and> zr_name r = z_name z \<and> zr_city_id r = z_city_id z
     \<and> zr_description r = z_description z \<and> zr_is_active r = z_is_active z
     \<and> zr_created_at r = z_created_at z \<and> zr_color r = upper (z_color z)"
  by (auto simp: ZoneResponse_def ZoneBase_color_def validate_color_def
           split: if_splits sum.splits)

lemma ZoneResponse_error: "ZoneResponse z = Inl e \<Longrightarrow> e = ResponseValidationError"
  by (auto simp: ZoneResponse_def split: if_splits sum.splits)

lemma CityResponse_error: "CityResponse c = Inl e \<Longrightarrow> e = ResponseValidationError"
  by (auto simp: CityResponse_def split: if_splits)

lemma CityResponse_ok:
  "city_row_ok c \<Longrightarrow> \<exists>r. CityResponse c = Inr r"
  by (simp add: city_row_ok_def CityResponse_def)

lemma find_Some_set: "find P xs = Some x \<Longrightarrow> x \<in> set xs \<and> P x"
  by (induction xs) (auto split: if_splits)

lemma test_rows_ok: "rows_ok test_db_inactive"
  by (simp add: rows_ok_def test_db_inactive_def test_db_def city_row_ok_def zone_row_ok_def
      str_length_ok_def color_pattern_def hex_digit_def)

section \<open>A city with its zones\<close>

text \<open>
  Claim C5. \<open>get_city_with_zones\<close> answers \<open>NotFound\<close> when no city has the id.
  Otherwise, on a store whose rows pass their response schemas (\<open>rows_ok\<close>, which
  the writing routes keep, see the lemmas \<open>post_cities_rows_ok\<close> to
  \<open>put_zones_rows_ok\<close>), it answers; and every answer carries the city, the responses
  of exactly the zones of that city whose \<open>is_active\<close> is true, in row order, and
  \<open>total_zones\<close> equal to the number of those zones: inactive zones are neither
  listed nor counted. The only other failure is a row that does not pass its
  response schema. On the store of the
  test suite with one more, inactive, zone in the first city (four zones, three of
  them active) \<open>total_zones\<close> is 3 and three zones are listed.
\<close>

theorem get_city_with_zones_active_only:
  "(find (\<lambda>c. c_id c = cid) (cities d) = None \<longrightarrow> get_city_with_zones cid d = Inl NotFound)
   \<and> (\<forall>c. find (\<lambda>c. c_id c = cid) (cities d) = Some c \<and> rows_ok d \<longrightarrow>
          (\<exists>r. get_city_with_zones cid d = Inr r))
   \<and> (\<forall>r. get_city_with_zones cid d = Inr r \<longrightarrow>
          (\<exists>c. find (\<lambda>c. c_id c = cid) (cities d) = Some c \<and> CityResponse c = Inr (city_response.truncate r))
          \<and> cr_id r = cid
          \<and> list_all2 (\<lambda>z x. ZoneResponse z = Inr x)
               (filter (\<lambda>z. z_city_id z = cid \<and> z_is_active z) (zones d)) (cr_zones r)
          \<and> map zr_id (cr_zones r)
               = map z_id (filter (\<lambda>z. z_city_id z = cid \<and> z_is_active z) (zones d))
          \<and> cr_total_zones r = length (cr_zones r)
          \<and> cr_total_zones r
               = length (filter (\<lambda>z. z_city_id z = cid \<and> z_is_active z) (zones d)))
   \<and> (\<forall>e. get_city_with_zones cid d = Inl e \<longrightarrow>
          e = NotFound \<and> find (\<lambda>c. c_id c = cid) (cities d) = None
          \<or> e = ResponseValidationError \<and> \<not> rows_ok d)"
proof (intro conjI allI impI)
  assume "find (\<lambda>c. c_id c = cid) (cities d) = None"
  then show "get_city_with_zones cid d = Inl NotFound"
    by (simp add: get_city_with_zones_def)
next
  fix e assume e: "get_city_with_zones cid d = Inl e"
  let ?zs = "filter (\<lambda>z. z_city_id z = cid \<and> z_is_active z) (zones d)"
  show "e = NotFound \<and> find (\<lambda>c. c_id c = cid) (cities d) = None
          \<or> e = ResponseValidationError \<and> \<not> rows_ok d"
  proof (cases "find (\<lambda>c. c_id c = cid) (cities d)")
    case None
    with e show ?thesis by (simp add: get_city_with_zones_def)
  next
    case (Some c)
    then have cin: "c \<in> set (cities d)" by (auto dest: find_Some_set)
    show ?thesis
    proof (cases "collect (map ZoneResponse ?zs)")
      case (Inl e')
      with e Some have "e = e'" by (simp add: get_city_with_zones_def Let_def)
      moreover from Inl obtain z where z: "z \<in> set ?zs" "ZoneResponse z = Inl e'"
        by (auto dest: collect_map_Inl)
      moreover from z have "\<not> zone_row_ok z" using ZoneResponse_ok by fastforce
      ultimately show ?thesis
        using z by (auto simp: rows_ok_def list_all_iff dest: ZoneResponse_error)
    next
      case (Inr rs)
      with e Some have "CityResponse c = Inl e"
        by (simp add: get_city_with_zones_def Let_def CityWithZonesResponse_def
              split: sum.splits)
      moreover from this have "\<not> city_row_ok c" using CityResponse_ok by fastforce
      ultimately show ?thesis
        using cin by (auto simp: rows_ok_def list_all_iff dest: CityResponse_error)
    qed
  qed
next
  fix c assume a: "find (\<lambda>c. c_id c = cid) (cities d) = Some c \<and> rows_ok d"
  let ?zs = "filter (\<lambda>z. z_city_id z = cid \<and> z_is_active z) (zones d)"
  from a have "c \<in> set (cities d)" by (auto dest: find_Some_set)
  with a have "city_row_ok c" by (auto simp: rows_ok_def list_all_iff)
  then obtain cr where cr: "CityResponse c = Inr cr" using CityResponse_ok by blast
  from a have "\<forall>z \<in> set ?zs. \<exists>r. ZoneResponse z = Inr r"
    by (auto simp: rows_ok_def list_all_iff ZoneResponse_ok)
  then obtain rs where "collect (map ZoneResponse ?zs) = Inr rs"
    using collect_map_total by blast
  with a cr show "\<exists>r. get_city_with_zones cid d = Inr r"
    by (simp add: get_city_with_zones_def CityWithZonesResponse_def Let_def)
next
  fix r assume r: "get_city_with_zones cid d = Inr r"
  let ?zs = "filter (\<lambda>z. z_city_id z = cid \<and> z_is_active z) (zones d)"
  from r obtain c rs cr where c: "find (\<lambda>c. c_id c = cid) (cities d) = Some c"
    and rs: "collect (map ZoneResponse ?zs) = Inr rs"
    and cr: "CityResponse c = Inr cr"
    and req: "r = city_response.extend cr \<lparr>cr_zones = rs, cr_total_zones = length ?zs\<rparr>"
    by (auto simp: get_city_with_zones_def CityWithZonesResponse_def Let_def
             split: option.splits sum.splits)
  have l2: "list_all2 (\<lambda>z x. ZoneResponse z = Inr x) ?zs rs"
    using rs by (rule collect_map_Inr)
  have ids: "map zr_id rs = map z_id ?zs"
    using l2 by (induction rule: list_all2_induct) (auto dest: ZoneResponse_fields)
  have len: "length rs = length ?zs" using rs by (rule collect_map_length)
  have cid: "cr_id cr = cid" using c cr
    by (auto simp: CityResponse_def split: if_splits dest: find_Some_set)
  have tr: "city_response.truncate r = cr"
    by (simp add: req city_response.truncate_def city_response.extend_def)
  show "\<exists>c. find (\<lambda>c. c_id c = cid) (cities d) = Some c \<and> CityResponse c = Inr (city_response.truncate r)"
    using c cr tr by simp
  show "cr_id r = cid" using cid by (simp add: req city_response.extend_def)
  show "list_all2 (\<lambda>z x. ZoneResponse z = Inr x) ?zs (cr_zones r)"
    using l2 by (simp add: req city_response.extend_def)
  show "map zr_id (cr_zones r) = map z_id ?zs"
    using ids by (simp add: req city_response.extend_def)
  show "cr_total_zones r = length (cr_zones r)"
    using len by (simp add: req city_response.extend_def)
  show "cr_total_zones r = length ?zs"
    by (simp add: req city_response.extend_def)
qed

theorem get_city_with_zones_active_only_witness:
  "(\<exists>r. get_city_with_zones 1 test_db_inactive = Inr r
        \<and> cr_total_zones r = 3 \<and> length (cr_zones r) = 3
        \<and> map zr_id (cr_zones r) = [1, 2, 3] \<and> cr_name r = ''Bogota'')
   \<and> length (filter (\<lambda>z. z_city_id z = 1) (zones test_db_inactive)) = 4
   \<and> get_city_with_zones 999 test_db_inactive = Inl NotFound"
proof -
  note t = get_city_with_zones_active_only [of 1 test_db_inactive]
  have f: "find (\<lambda>c. c_id c = 1) (cities test_db_inactive)
             = Some \<lparr>c_id = 1, c_name = ''Bogota'', c_country = ''Colombia'',
                     c_is_active = True, c_created_at = 0, c_updated_at = 0\<rparr>"
    by (simp add: test_db_inactive_def test_db_def)
  have z: "map z_id (filter (\<lambda>z. z_city_id z = 1 \<and> z_is_active z) (zones test_db_inactive))
             = [1, 2, 3]"
    by (simp add: test_db_inactive_def test_db_def)
  from t f test_rows_ok obtain r where r: "get_city_with_zones 1 test_db_inactive = Inr r"
    by blast
  with t f have cr: "CityResponse \<lparr>c_id = 1, c_name = ''Bogota'', c_country = ''Colombia'',
                     c_is_active = True, c_created_at = 0, c_updated_at = 0\<rparr>
                   = Inr (city_response.truncate r)"
    and ids: "map zr_id (cr_zones r)
       = map z_id (filter (\<lambda>z. z_city_id z = 1 \<and> z_is_active z) (zones test_db_inactive))"
    and tot: "cr_total_zones r = length (cr_zones r)"
    by auto
  from ids z have ids': "map zr_id (cr_zones r) = [1, 2, 3]" by simp
  then have "length (map zr_id (cr_zones r)) = 3" by simp
  then have len: "length (cr_zones r) = 3" by simp
  from cr have "city_response.truncate r
       = \<lparr>cr_id = 1, cr_name = ''Bogota'', cr_country = ''Colombia'',
          cr_is_active = True, cr_created_at = 0\<rparr>"
    by (simp add: CityResponse_def str_length_ok_def)
  then have "cr_name (city_response.truncate r) = ''Bogota''" by simp
  then have nm: "cr_name r = ''Bogota''" by (simp add: city_response.truncate_def)
  have four: "length (filter (\<lambda>z. z_city_id z = 1) (zones test_db_inactive)) = 4"
    by (simp add: test_db_inactive_def test_db_def)
  have nf: "get_city_with_zones 999 test_db_inactive = Inl NotFound"
    using get_city_with_zones_active_only [of 999 test_db_inactive]
    by (simp add: test_db_inactive_def test_db_def)
  from r tot len ids' nm four nf show ?thesis by auto
qed

section \<open>Pagination\<close>

lemma page_params_Some:
  "page_params (Some s) (Some l) =
     (if 0 \<le> s \<and> 1 \<le> l \<and> l \<le> 1000 then Inr (s, l)
      else Inl (ValidationError ((if 0 \<le> s then [] else [''skip''])
                                 @ (if 1 \<le> l \<and> l \<le> 1000 then [] else [''limit'']))))"
  by (auto simp: page_params_def skip_param_def limit_param_def errors_of_def)

lemma page_params_default:
  "page_params None limit = page_params (Some 0) limit"
  "page_params skip None = page_params skip (Some 100)"
  by (auto simp: page_params_def skip_param_def limit_param_def errors_of_def
           split: option.splits)

lemma take_nat_length: "0 \<le> l \<Longrightarrow> int (length (take (nat l) xs)) \<le> l"
  by simp

lemma filter_active_filter:
  "filter_active p a xs = filter (\<lambda>x. a = None \<or> a = Some (p x)) xs"
  by (cases a) (auto simp: filter_active_def intro: filter_cong)

lemma zone_query_filter:
  "filter_active (\<lambda>(z, c). z_is_active z) a
     (case cid of None \<Rightarrow> q | Some i \<Rightarrow> filter (\<lambda>(z, c). z_city_id z = i) q)
   = filter (\<lambda>(z, c). (cid = None \<or> cid = Some (z_city_id z))
                       \<and> (a = None \<or> a = Some (z_is_active z))) q"
  by (cases cid) (auto simp: filter_active_filter intro: filter_cong)

lemma set_zone_city_join:
  "set (zone_city_join d)
     = {(z, c). z \<in> set (zones d) \<and> c \<in> set (cities d) \<and> z_city_id z = c_id c}"
  by (auto simp: zone_city_join_def)

lemma filter_id_distinct:
  "distinct (map c_id cs) \<Longrightarrow> c \<in> set cs \<Longrightarrow> filter (\<lambda>x. c_id c = c_id x) cs = [c]"
proof (induction cs)
  case Nil
  then show ?case by simp
next
  case (Cons x cs)
  show ?case
  proof (cases "x = c")
    case True
    with Cons.prems have "\<forall>y \<in> set cs. c_id y \<noteq> c_id c" by (auto simp: image_iff)
    then have "filter (\<lambda>x. c_id c = c_id x) cs = []" by (auto simp: filter_empty_conv)
    with True show ?thesis by simp
  next
    case False
    with Cons.prems have "c \<in> set cs" "c_id x \<noteq> c_id c" by (auto simp: image_iff)
    with Cons show ?thesis by auto
  qed
qed

lemma zone_city_join_zones:
  assumes "distinct (map c_id (cities d))" and "references_ok d"
  shows "map fst (zone_city_join d) = zones d"
proof -
  have "\<And>z. z \<in> set (zones d) \<Longrightarrow>
          \<exists>c. filter (\<lambda>c. z_city_id z = c_id c) (cities d) = [c]"
  proof -
    fix z assume "z \<in> set (zones d)"
    with assms(2) obtain c where c: "c \<in> set (cities d)" "z_city_id z = c_id c"
      by (auto simp: references_ok_def city_ids_def)
    with filter_id_distinct [OF assms(1) c(1)] show
      "\<exists>c. filter (\<lambda>c. z_city_id z = c_id c) (cities d) = [c]" by auto
  qed
  then have "\<And>zs. set zs \<subseteq> set (zones d) \<Longrightarrow>
     map fst (concat (map (\<lambda>z. map (\<lambda>c. (z, c)) (filter (\<lambda>c. z_city_id z = c_id c) (cities d))) zs)) = zs"
  proof -
    fix zs show "set zs \<subseteq> set (zones d) \<Longrightarrow>
     map fst (concat (map (\<lambda>z. map (\<lambda>c. (z, c)) (filter (\<lambda>c. z_city_id z = c_id c) (cities d))) zs)) = zs"
    proof (induction zs)
      case Nil
      then show ?case by simp
    next
      case (Cons z zs)
      then obtain c where "filter (\<lambda>c. z_city_id z = c_id c) (cities d) = [c]"
        using \<open>\<And>z. z \<in> set (zones d) \<Longrightarrow> \<exists>c. filter (\<lambda>c. z_city_id z = c_id c) (cities d) = [c]\<close>
        by auto
      with Cons show ?case by simp
    qed
  qed
  then show ?thesis by (simp add: zone_city_join_def)
qed

lemma ZoneWithCityResponse_ok:
  "zone_row_ok z \<Longrightarrow> \<exists>r. ZoneWithCityResponse z n k = Inr r"
  using ZoneResponse_ok [of z] by (auto simp: ZoneWithCityResponse_def)

lemma ZoneWithCityResponse_error:
  "ZoneWithCityResponse z n k = Inl e \<Longrightarrow> e = ResponseValidationError \<and> \<not> zone_row_ok z"
  using ZoneResponse_ok [of z]
  by (auto simp: ZoneWithCityResponse_def split: sum.splits dest: ZoneResponse_error)

lemma ZoneWithCityResponse_fields:
  "ZoneWithCityResponse z n k = Inr r \<Longrightarrow>
     ZoneResponse z = Inr (zone_response.truncate r) \<and> zr_id r = z_id z
     \<and> zr_city_name r = n \<and> zr_city_country r = k"
  by (auto simp: ZoneWithCityResponse_def zone_response.truncate_def zone_response.extend_def
           split: sum.splits dest: ZoneResponse_fields)

lemma zone_rows_ids:
  "list_all2 (\<lambda>(z, c) r. ZoneWithCityResponse z (c_name c) (c_country c) = Inr r) q rs \<Longrightarrow>
     map zr_id rs = map (\<lambda>(z, c). z_id z) q
     \<and> map zr_city_name rs = map (\<lambda>(z, c). c_name c) q"
  by (induction q rs rule: list_all2_induct) (auto dest: ZoneWithCityResponse_fields)

text \<open>
  Claim C8, as amended. In \<open>get_cities\<close> and \<open>get_zones\<close> a request with \<open>skip < 0\<close> or
  \<open>limit\<close> outside \<open>[1, 1000]\<close> is rejected with a validation error that names the
  offending parameters. \<open>skip\<close> has no upper bound in the request: a \<open>skip\<close> above
  \<open>2^63 - 1\<close> passes the validation and makes the query raise. A request with
  \<open>0 \<le> skip \<le> 2^63 - 1\<close> and \<open>1 \<le> limit \<le> 1000\<close> is answered from the filtered rows:
  the first \<open>skip\<close> rows are dropped and at most \<open>limit\<close> of the following ones are
  returned. For the cities the filtered rows are the cities with the requested
  \<open>is_active\<close>, if one is requested. For the zones they are the pairs of a zone and
  the city it references, with the requested \<open>city_id\<close> and \<open>is_active\<close>, if requested;
  each pair is answered by the zone's response with the name and country of its
  city, the answer exists when the rows pass their response schemas, and the only
  failure is a row that does not. On a store whose city ids are distinct and whose
  zones reference cities, the zones of the pairs are the zones of the store, in
  order. An absent \<open>skip\<close> is 0 and an absent \<open>limit\<close> is 100.
\<close>

theorem pagination_within_int64:
  "(\<not> (0 \<le> s \<and> 1 \<le> l \<and> l \<le> 1000) \<longrightarrow>
        (\<exists>fs. fs \<noteq> [] \<and> get_cities (Some s) (Some l) a d = Inl (ValidationError fs)
               \<and> get_zones cid (Some s) (Some l) a d = Inl (ValidationError fs)))
   \<and> (int64_max < s \<and> 1 \<le> l \<and> l \<le> 1000 \<longrightarrow>
        get_cities (Some s) (Some l) a d = Inl DataError
        \<and> get_zones cid (Some s) (Some l) a d = Inl DataError)
   \<and> (0 \<le> s \<and> s \<le> int64_max \<and> 1 \<le> l \<and> l \<le> 1000 \<longrightarrow>
        get_cities (Some s) (Some l) a d
          = Inr (take (nat l) (drop (nat s)
                   (filter (\<lambda>c. a = None \<or> a = Some (c_is_active c)) (cities d))))
        \<and> int (length (take (nat l) (drop (nat s)
                   (filter (\<lambda>c. a = None \<or> a = Some (c_is_active c)) (cities d))))) \<le> l
        \<and> (\<forall>rs. get_zones cid (Some s) (Some l) a d = Inr rs \<longrightarrow>
              int (length rs) \<le> l
              \<and> list_all2 (\<lambda>(z, c) r. ZoneWithCityResponse z (c_name c) (c_country c) = Inr r)
                   (take (nat l) (drop (nat s)
                      (filter (\<lambda>(z, c). (cid = None \<or> cid = Some (z_city_id z))
                                          \<and> (a = None \<or> a = Some (z_is_active z)))
                              (zone_city_join d))))
                   rs)
        \<and> (rows_ok d \<longrightarrow> (\<exists>rs. get_zones cid (Some s) (Some l) a d = Inr rs))
        \<and> (\<forall>e. get_zones cid (Some s) (Some l) a d = Inl e \<longrightarrow>
              e = ResponseValidationError \<and> \<not> rows_ok d))
   \<and> set (zone_city_join d)
        = {(z, c). z \<in> set (zones d) \<and> c \<in> set (cities d) \<and> z_city_id z = c_id c}
   \<and> (distinct (map c_id (cities d)) \<and> references_ok d \<longrightarrow>
        map fst (zone_city_join d) = zones d)
   \<and> get_cities None limit a d = get_cities (Some 0) limit a d
   \<and> get_cities skip None a d = get_cities skip (Some 100) a d
   \<and> get_zones cid None limit a d = get_zones cid (Some 0) limit a d
   \<and> get_zones cid skip None a d = get_zones cid skip (Some 100) a d"
proof (intro conjI impI)
  assume r: "\<not> (0 \<le> s \<and> 1 \<le> l \<and> l \<le> 1000)"
  then have pp: "page_params (Some s) (Some l)
       = Inl (ValidationError ((if 0 \<le> s then [] else [''skip''])
                                 @ (if 1 \<le> l \<and> l \<le> 1000 then [] else [''limit''])))"
    by (simp add: page_params_Some)
  have ne: "(if 0 \<le> s then [] else [''skip''])
                @ (if 1 \<le> l \<and> l \<le> 1000 then [] else [''limit'']) \<noteq> []"
    using r by auto
  show "\<exists>fs. fs \<noteq> [] \<and> get_cities (Some s) (Some l) a d = Inl (ValidationError fs)
               \<and> get_zones cid (Some s) (Some l) a d = Inl (ValidationError fs)"
    using ne by (intro exI [of _ "(if 0 \<le> s then [] else [''skip''])
                @ (if 1 \<le> l \<and> l \<le> 1000 then [] else [''limit''])"])
       (simp add: get_cities_def get_zones_def pp)
next
  assume r: "int64_max < s \<and> 1 \<le> l \<and> l \<le> 1000"
  then have "0 \<le> s" by (simp add: int64_max_def)
  with r have pp: "page_params (Some s) (Some l) = Inr (s, l)" by (simp add: page_params_Some)
  from r show "get_cities (Some s) (Some l) a d = Inl DataError"
    by (simp add: get_cities_def pp offset_limit_def)
  from r show "get_zones cid (Some s) (Some l) a d = Inl DataError"
    by (simp add: get_zones_def pp offset_limit_def Let_def)
next
  assume r: "0 \<le> s \<and> s \<le> int64_max \<and> 1 \<le> l \<and> l \<le> 1000"
  then have pp: "page_params (Some s) (Some l) = Inr (s, l)" by (simp add: page_params_Some)
  from r have lim: "\<not> l > int64_max" by (simp add: int64_max_def)
  let ?cs = "take (nat l) (drop (nat s)
                   (filter (\<lambda>c. a = None \<or> a = Some (c_is_active c)) (cities d)))"
  let ?R = "\<lambda>(z, c). ZoneWithCityResponse z (c_name c) (c_country c)"
  let ?q = "take (nat l) (drop (nat s)
                      (filter (\<lambda>(z, c). (cid = None \<or> cid = Some (z_city_id z))
                                          \<and> (a = None \<or> a = Some (z_is_active z)))
                              (zone_city_join d)))"
  show "get_cities (Some s) (Some l) a d = Inr ?cs"
    using r lim by (simp add: get_cities_def pp offset_limit_def filter_active_filter)
  show "int (length ?cs) \<le> l" using r by (intro take_nat_length) simp
  have z: "get_zones cid (Some s) (Some l) a d = collect (map ?R ?q)"
    using r lim by (simp add: get_zones_def pp offset_limit_def Let_def zone_query_filter)
  have qsub: "set ?q \<subseteq> set (zone_city_join d)"
    by (auto dest!: in_set_takeD in_set_dropD)
  show "\<forall>rs. get_zones cid (Some s) (Some l) a d = Inr rs \<longrightarrow>
              int (length rs) \<le> l \<and> list_all2 (\<lambda>(z, c) r. ZoneWithCityResponse z (c_name c) (c_country c) = Inr r) ?q rs"
  proof (intro allI impI)
    fix rs assume "get_zones cid (Some s) (Some l) a d = Inr rs"
    then have c: "collect (map ?R ?q) = Inr rs" by (simp only: z)
    then have "length rs = length ?q" by (rule collect_map_length)
    moreover have "int (length ?q) \<le> l" using r by (intro take_nat_length) simp
    ultimately have "int (length rs) \<le> l" by (simp only:)
    moreover from c have "list_all2 (\<lambda>x r. ?R x = Inr r) ?q rs" by (rule collect_map_Inr)
    then have "list_all2 (\<lambda>(z, c) r. ZoneWithCityResponse z (c_name c) (c_country c) = Inr r) ?q rs"
      by (simp add: case_prod_unfold)
    ultimately show "int (length rs) \<le> l
        \<and> list_all2 (\<lambda>(z, c) r. ZoneWithCityResponse z (c_name c) (c_country c) = Inr r) ?q rs"
      by blast
  qed
  show "\<exists>rs. get_zones cid (Some s) (Some l) a d = Inr rs" if ok: "rows_ok d"
  proof -
    have "\<forall>x \<in> set ?q. \<exists>r. ?R x = Inr r"
    proof
      fix x assume "x \<in> set ?q"
      with qsub have "x \<in> set (zone_city_join d)" by blast
      then have "fst x \<in> set (zones d)" by (auto simp: set_zone_city_join)
      with ok have "zone_row_ok (fst x)" by (simp add: rows_ok_def list_all_iff)
      then show "\<exists>r. ?R x = Inr r"
        using ZoneWithCityResponse_ok by (simp add: case_prod_unfold)
    qed
    then show ?thesis unfolding z by (rule collect_map_total)
  qed
  show "\<forall>e. get_zones cid (Some s) (Some l) a d = Inl e \<longrightarrow>
              e = ResponseValidationError \<and> \<not> rows_ok d"
  proof (intro allI impI)
    fix e assume "get_zones cid (Some s) (Some l) a d = Inl e"
    then have "collect (map ?R ?q) = Inl e" by (simp only: z)
    then obtain x where x: "x \<in> set ?q" "?R x = Inl e" by (auto dest: collect_map_Inl)
    with qsub have "x \<in> set (zone_city_join d)" by blast
    then have zin: "fst x \<in> set (zones d)" by (auto simp: set_zone_city_join)
    from x(2) have "e = ResponseValidationError \<and> \<not> zone_row_ok (fst x)"
      by (auto simp: case_prod_unfold dest: ZoneWithCityResponse_error)
    with zin show "e = ResponseValidationError \<and> \<not> rows_ok d"
      by (auto simp: rows_ok_def list_all_iff)
  qed
next
  show "set (zone_city_join d)
        = {(z, c). z \<in> set (zones d) \<and> c \<in> set (cities d) \<and> z_city_id z = c_id c}"
    by (rule set_zone_city_join)
next
  assume "distinct (map c_id (cities d)) \<and> references_ok d"
  then show "map fst (zone_city_join d) = zones d" by (auto intro: zone_city_join_zones)
qed (simp_all add: get_cities_def get_zones_def page_params_default)

theorem pagination_within_int64_witness:
  "(\<exists>c. get_cities (Some 0) (Some 1) None test_db = Inr [c])
   \<and> length (cities test_db) = 2
   \<and> (\<exists>rs. get_zones None (Some 0) (Some 2) None test_db = Inr rs
         \<and> map zr_id rs = [1, 2] \<and> map zr_city_name rs = [''Bogota'', ''Bogota''])
   \<and> (\<exists>rs. get_zones (Some 1) (Some 1) None (Some True) test_db_inactive = Inr rs
         \<and> map zr_id rs = [2, 3])
   \<and> map z_id (zones test_db_inactive) = [1, 2, 3, 4, 5]
   \<and> (\<exists>fs. get_cities (Some 0) (Some 0) None test_db = Inl (ValidationError fs))
   \<and> (\<exists>fs. get_cities (Some 0) (Some 1001) None test_db = Inl (ValidationError fs))
   \<and> (\<exists>fs. get_zones None (Some (-1)) (Some 10) None test_db = Inl (ValidationError fs))
   \<and> get_cities None None None test_db = Inr (cities test_db)"
proof -
  have ok: "rows_ok test_db"
    by (simp add: test_db_def rows_ok_def city_row_ok_def zone_row_ok_def str_length_ok_def
          color_pattern_def hex_digit_def)
  have a: "\<exists>c. get_cities (Some 0) (Some 1) None test_db = Inr [c]"
    using pagination_within_int64 [of 0 1 None test_db None None None]
    by (simp add: test_db_def int64_max_def)
  have z1: "\<exists>rs. get_zones None (Some 0) (Some 2) None test_db = Inr rs
         \<and> map zr_id rs = [1, 2] \<and> map zr_city_name rs = [''Bogota'', ''Bogota'']"
  proof -
    note t = pagination_within_int64 [of 0 2 None test_db None None None]
    from t ok obtain rs where rs: "get_zones None (Some 0) (Some 2) None test_db = Inr rs"
      by (auto simp: int64_max_def)
    with t have "list_all2 (\<lambda>(z, c) r. ZoneWithCityResponse z (c_name c) (c_country c) = Inr r)
                   (take (nat 2) (drop (nat 0)
                      (filter (\<lambda>(z, c). (None = (None :: int option) \<or> None = Some (z_city_id z))
                                          \<and> (None = (None :: bool option) \<or> None = Some (z_is_active z)))
                              (zone_city_join test_db))))
                   rs"
      by (simp add: int64_max_def)
    from zone_rows_ids [OF this]
    have "map zr_id rs = [1, 2] \<and> map zr_city_name rs = [''Bogota'', ''Bogota'']"
      by (simp add: zone_city_join_def test_db_def)
    with rs show ?thesis by auto
  qed
  have z2: "\<exists>rs. get_zones (Some 1) (Some 1) None (Some True) test_db_inactive = Inr rs
         \<and> map zr_id rs = [2, 3]"
  proof -
    note t = pagination_within_int64 [of 1 100 "Some True" test_db_inactive "Some 1" None "Some 1"]
    from t test_rows_ok obtain rs where
      rs: "get_zones (Some 1) (Some 1) (Some 100) (Some True) test_db_inactive = Inr rs"
      by (auto simp: int64_max_def)
    with t have "list_all2 (\<lambda>(z, c) r. ZoneWithCityResponse z (c_name c) (c_country c) = Inr r)
                   (take (nat 100) (drop (nat 1)
                      (filter (\<lambda>(z, c). (Some 1 = (None :: int option) \<or> Some 1 = Some (z_city_id z))
                                          \<and> (Some True = (None :: bool option) \<or> Some True = Some (z_is_active z)))
                              (zone_city_join test_db_inactive))))
                   rs"
      by (simp add: int64_max_def)
    from zone_rows_ids [OF this]
    have "map zr_id rs = [2, 3]"
      by (simp add: zone_city_join_def test_db_inactive_def test_db_def)
    with rs t show ?thesis by auto
  qed
  have b: "\<exists>fs. get_cities (Some 0) (Some 0) None test_db = Inl (ValidationError fs)"
    using pagination_within_int64 [of 0 0 None test_db None None None] by auto
  have c: "\<exists>fs. get_cities (Some 0) (Some 1001) None test_db = Inl (ValidationError fs)"
    using pagination_within_int64 [of 0 1001 None test_db None None None] by auto
  have d: "\<exists>fs. get_zones None (Some (-1)) (Some 10) None test_db = Inl (ValidationError fs)"
    using pagination_within_int64 [of "-1" 10 None test_db None None None] by auto
  have e: "get_cities None None None test_db = Inr (cities test_db)"
    using pagination_within_int64 [of 0 100 None test_db None None None]
          pagination_within_int64 [of 0 100 None test_db None None "Some 0"]
    by (simp add: test_db_def int64_max_def)
  have f: "length (cities test_db) = 2" by (simp add: test_db_def)
  have g: "map z_id (zones test_db_inactive) = [1, 2, 3, 4, 5]"
    by (simp add: test_db_inactive_def test_db_def)
  from a z1 z2 b c d e f g show ?thesis by (intro conjI)
qed

text \<open>
  The claim as it was stated (every request with \<open>skip \<ge> 0\<close> and \<open>limit\<close> in
  \<open>[1, 1000]\<close> returns at most \<open>limit\<close> results) fails at \<open>skip = 2^63\<close>: the request is
  not rejected as malformed, and the query raises (status 500) in both handlers.
\<close>

theorem pagination_skip_counterexample:
  "(0 :: int) \<le> 9223372036854775808
   \<and> get_cities (Some 9223372036854775808) (Some 1) None test_db = Inl DataError
   \<and> get_zones None (Some 9223372036854775808) (Some 1) None test_db = Inl DataError
   \<and> status_code DataError = 500"
  by (simp add: get_cities_def get_zones_def page_params_def skip_param_def limit_param_def
        offset_limit_def int64_max_def Let_def)

section \<open>The responses and \<open>updated_at\<close>\<close>

text \<open>
  The answers of the routes do not depend on the \<open>updated_at\<close> columns of the store,
  and the answer of an update does not depend on the time of the update.
\<close>

lemma find_map: "find P (map f xs) = map_option f (find (\<lambda>x. P (f x)) xs)"
  by (induction xs) auto

lemma CityResponse_touch: "CityResponse (c\<lparr>c_updated_at := t\<rparr>) = CityResponse c"
  by (simp add: CityResponse_def)

lemma ZoneResponse_touch: "ZoneResponse (z\<lparr>z_updated_at := t\<rparr>) = ZoneResponse z"
  by (auto simp: ZoneResponse_def split: sum.splits)

lemma filter_map_invariant:
  "(\<And>x. P (h x) = P x) \<Longrightarrow> filter P (map h xs) = map h (filter P xs)"
  by (induction xs) auto

lemma ZoneWithCityResponse_touch:
  "ZoneWithCityResponse (z\<lparr>z_updated_at := t\<rparr>) n k = ZoneWithCityResponse z n k"
  by (simp add: ZoneWithCityResponse_def ZoneResponse_touch)

lemma filter_active_map:
  "(\<And>x. p (f x) = p x) \<Longrightarrow> filter_active p a (map f xs) = map f (filter_active p a xs)"
  by (cases a) (simp_all add: filter_active_def filter_map comp_def)

lemma offset_limit_map:
  "offset_limit s l (map f xs) = map_sum id (map f) (offset_limit s l xs)"
  by (simp add: offset_limit_def take_map drop_map)

lemma cities_touch: "cities (touch f g d) = map (\<lambda>c. c\<lparr>c_updated_at := f c\<rparr>) (cities d)"
  by (simp add: touch_def)

lemma zones_touch: "zones (touch f g d) = map (\<lambda>z. z\<lparr>z_updated_at := g z\<rparr>) (zones d)"
  by (simp add: touch_def)

lemma next_id_touch:
  "next_city_id (touch f g d) = next_city_id d"
  "next_zone_id (touch f g d) = next_zone_id d"
  by (simp_all add: touch_def)

lemma list_cities_touch: "list_cities sk lm a (touch f g d) = list_cities sk lm a d"
proof -
  let ?h = "\<lambda>c. c\<lparr>c_updated_at := f c\<rparr>"
  have 1: "\<And>s l. offset_limit s l (filter_active c_is_active a (map ?h (cities d)))
             = map_sum id (map ?h) (offset_limit s l (filter_active c_is_active a (cities d)))"
    by (simp add: filter_active_map offset_limit_map)
  have 2: "\<And>xs. map CityResponse (map ?h xs) = map CityResponse xs"
    by (simp add: comp_def CityResponse_touch)
  show ?thesis
    by (auto simp: list_cities_def get_cities_def cities_touch Let_def 1 comp_def
          CityResponse_touch split: sum.splits)
qed

lemma get_city_with_zones_touch:
  "get_city_with_zones cid (touch f g d) = get_city_with_zones cid d"
proof -
  let ?P = "\<lambda>z. z_city_id z = cid \<and> z_is_active z = True"
  let ?h = "\<lambda>z. z\<lparr>z_updated_at := g z\<rparr>"
  have fz: "filter ?P (map ?h (zones d)) = map ?h (filter ?P (zones d))"
    by (rule filter_map_invariant) simp
  have z: "map ZoneResponse (map ?h (filter ?P (zones d))) = map ZoneResponse (filter ?P (zones d))"
    by (simp add: comp_def ZoneResponse_touch)
  have c: "\<And>c zs n. CityWithZonesResponse (c\<lparr>c_updated_at := f c\<rparr>) zs n
                      = CityWithZonesResponse c zs n"
    by (simp add: CityWithZonesResponse_def CityResponse_touch)
  have "get_city_with_zones cid (touch f g d)
      = (case find (\<lambda>c. c_id c = cid) (cities d) of
           None \<Rightarrow> Inl NotFound
         | Some city \<Rightarrow>
             (case collect (map ZoneResponse (filter ?P (zones d))) of
                Inl e \<Rightarrow> Inl e
              | Inr rs \<Rightarrow> CityWithZonesResponse city rs (length (filter ?P (zones d)))))"
    unfolding get_city_with_zones_def Let_def cities_touch zones_touch fz z length_map
    by (cases "find (\<lambda>c. c_id c = cid) (cities d)") (simp_all add: find_map c split: sum.splits)
  then show ?thesis by (simp only: get_city_with_zones_def Let_def)
qed

lemma zone_city_join_touch:
  "zone_city_join (touch f g d)
     = map (\<lambda>(z, c). (z\<lparr>z_updated_at := g z\<rparr>, c\<lparr>c_updated_at := f c\<rparr>)) (zone_city_join d)"
  by (simp add: zone_city_join_def touch_def map_concat comp_def filter_map)

lemma get_zone_touch: "get_zone zid (touch f g d) = get_zone zid d"
  by (cases "find (\<lambda>(z, c). z_id z = zid) (zone_city_join d)")
     (auto simp: get_zone_def zone_city_join_touch find_map case_prod_unfold
        ZoneWithCityResponse_touch)

lemma get_zones_touch: "get_zones cid sk lm a (touch f g d) = get_zones cid sk lm a d"
proof -
  let ?h = "\<lambda>(z, c). (z\<lparr>z_updated_at := g z\<rparr>, c\<lparr>c_updated_at := f c\<rparr>)"
  let ?R = "\<lambda>(z, c). ZoneWithCityResponse z (c_name c) (c_country c)"
  let ?A = "\<lambda>(z, c). z_is_active z"
  let ?sel = "\<lambda>q. case cid of None \<Rightarrow> q | Some i \<Rightarrow> filter (\<lambda>(z, c). z_city_id z = i) q"
  let ?out = "\<lambda>r. case r of Inl e \<Rightarrow> Inl e | Inr rows \<Rightarrow> collect (map ?R rows)"
  have 1: "\<And>q. ?sel (map ?h q) = map ?h (?sel q)"
    by (cases cid) (simp_all add: filter_map_invariant case_prod_unfold)
  have 2: "\<And>xs. filter_active ?A a (map ?h xs) = map ?h (filter_active ?A a xs)"
    by (rule filter_active_map) (simp add: case_prod_unfold)
  have 3: "\<And>xs. map ?R (map ?h xs) = map ?R xs"
    by (simp add: case_prod_unfold ZoneWithCityResponse_touch)
  have 4: "\<And>r. ?out (map_sum id (map ?h) r) = ?out r"
  proof -
    fix r :: "error + (zone \<times> city) list"
    show "?out (map_sum id (map ?h) r) = ?out r"
      by (cases r) (simp_all only: map_sum.simps sum.case id_apply 3)
  qed
  have "\<And>s l. ?out (offset_limit s l (filter_active ?A a (?sel (zone_city_join (touch f g d)))))
          = ?out (offset_limit s l (filter_active ?A a (?sel (zone_city_join d))))"
    by (simp only: zone_city_join_touch 1 2 offset_limit_map 4)
  then show ?thesis
    by (simp add: get_zones_def Let_def split: sum.splits)
qed

lemma insert_city_touch:
  "map_sum id (\<lambda>(d', row). CityResponse row) (insert_city (touch f g d) n k now)
     = map_sum id (\<lambda>(d', row). CityResponse row) (insert_city d n k now)"
  by (simp add: insert_city_def cities_touch find_map Let_def touch_def CityResponse_def)

lemma post_cities_touch:
  "snd (post_cities n k (touch f g d) now) = snd (post_cities n k d now)"
proof (cases "CityCreate n k")
  case (Inl e)
  then show ?thesis by (simp add: post_cities_def)
next
  case (Inr cd)
  show ?thesis
  proof (cases "find (\<lambda>c. c_name c = cc_name cd) (cities d)")
    case None
    then show ?thesis
      by (simp add: post_cities_def Inr create_city_def create_city_at_def cities_touch find_map
            insert_city_def Let_def CityResponse_def next_id_touch)
  next
    case (Some c)
    then show ?thesis
      by (simp add: post_cities_def Inr create_city_def create_city_at_def cities_touch find_map)
  qed
qed

lemma load_city_touch: "load_city (c\<lparr>c_updated_at := t\<rparr>) = load_city c"
  by (simp add: load_city_def)

lemma commit_city_touch:
  "map_sum id (\<lambda>(d', row). CityResponse row) (commit_city (touch f g d) (c\<lparr>c_updated_at := t\<rparr>) obj now)
     = map_sum id (\<lambda>(d', row). CityResponse row) (commit_city d c obj now)"
  by (auto simp: commit_city_def load_city_touch cities_touch find_map CityResponse_touch Let_def
        CityResponse_def
      split: option.splits)

lemma put_cities_touch:
  "snd (put_cities cid n k a (touch f g d) now) = snd (put_cities cid n k a d now)"
proof (cases "CityUpdate n k a")
  case (Inl e)
  then show ?thesis by (simp add: put_cities_def)
next
  case (Inr cu)
  show ?thesis
  proof (cases "find (\<lambda>c. c_id c = cid) (cities d)")
    case None
    then show ?thesis
      by (simp add: put_cities_def Inr update_city_def cities_touch find_map)
  next
    case (Some c)
    let ?obj = "foldl setattr_city (load_city c) (city_update_dump cu)"
    have "map_sum id (\<lambda>(d', row). CityResponse row)
            (commit_city (touch f g d) (c\<lparr>c_updated_at := f c\<rparr>) ?obj now)
        = map_sum id (\<lambda>(d', row). CityResponse row) (commit_city d c ?obj now)"
      by (rule commit_city_touch)
    then show ?thesis
      by (auto simp: put_cities_def Inr update_city_def cities_touch find_map Some Let_def
            load_city_touch split: sum.splits)
  qed
qed

lemma post_zones_touch:
  "snd (post_zones n i col ds (touch f g d) now) = snd (post_zones n i col ds d now)"
proof (cases "ZoneCreate n i col ds")
  case (Inl e)
  then show ?thesis by (simp add: post_zones_def)
next
  case (Inr zd)
  show ?thesis
    by (cases "find (\<lambda>c. c_id c = zc_city_id zd) (cities d)";
        cases "find (\<lambda>z. z_name z = zc_name zd \<and> z_city_id z = zc_city_id zd) (zones d)")
       (simp_all add: post_zones_def Inr create_zone_def cities_touch zones_touch find_map
          insert_zone_def Let_def next_id_touch ZoneResponse_def)
qed

lemma load_zone_touch: "load_zone (z\<lparr>z_updated_at := t\<rparr>) = load_zone z"
  by (simp add: load_zone_def)

lemma commit_zone_touch:
  "map_sum id (\<lambda>(d', row). ZoneResponse row)
       (commit_zone (touch f g d) (z\<lparr>z_updated_at := t\<rparr>) obj now)
     = map_sum id (\<lambda>(d', row). ZoneResponse row) (commit_zone d z obj now)"
  by (auto simp: commit_zone_def load_zone_touch cities_touch find_map ZoneResponse_touch Let_def
      split: option.splits)

lemma put_zones_touch:
  "snd (put_zones zid n i col ds a (touch f g d) now) = snd (put_zones zid n i col ds a d now)"
proof (cases "ZoneUpdate n i col ds a")
  case (Inl e)
  then show ?thesis by (simp add: put_zones_def)
next
  case (Inr zu)
  show ?thesis
  proof (cases "find (\<lambda>z. z_id z = zid) (zones d)")
    case None
    then show ?thesis
      by (simp add: put_zones_def Inr update_zone_def zones_touch find_map)
  next
    case (Some z)
    let ?obj = "foldl setattr_zone (load_zone z) (zone_update_dump zu)"
    have "map_sum id (\<lambda>(d', row). ZoneResponse row)
            (commit_zone (touch f g d) (z\<lparr>z_updated_at := g z\<rparr>) ?obj now)
        = map_sum id (\<lambda>(d', row). ZoneResponse row) (commit_zone d z ?obj now)"
      by (rule commit_zone_touch)
    then show ?thesis
      by (auto simp: put_zones_def Inr update_zone_def zones_touch find_map Some Let_def
            load_zone_touch split: sum.splits)
  qed
qed

lemma commit_city_now:
  "map_sum id (\<lambda>(d', row). CityResponse row) (commit_city d c obj now)
     = map_sum id (\<lambda>(d', row). CityResponse row) (commit_city d c obj now')"
  by (auto simp: commit_city_def Let_def CityResponse_touch split: option.splits)

lemma commit_zone_now:
  "map_sum id (\<lambda>(d', row). ZoneResponse row) (commit_zone d z obj now)
     = map_sum id (\<lambda>(d', row). ZoneResponse row) (commit_zone d z obj now')"
  by (auto simp: commit_zone_def Let_def ZoneResponse_touch split: option.splits)

lemma put_cities_now:
  "snd (put_cities cid n k a d now) = snd (put_cities cid n k a d now')"
proof (cases "CityUpdate n k a")
  case (Inl e)
  then show ?thesis by (simp add: put_cities_def)
next
  case (Inr cu)
  show ?thesis
  proof (cases "find (\<lambda>c. c_id c = cid) (cities d)")
    case None
    then show ?thesis by (simp add: put_cities_def Inr update_city_def)
  next
    case (Some c)
    then show ?thesis
      using commit_city_now [of d c "foldl setattr_city (load_city c) (city_update_dump cu)" now now']
      by (auto simp: put_cities_def Inr update_city_def Let_def split: sum.splits)
  qed
qed

lemma put_zones_now:
  "snd (put_zones zid n i col ds a d now) = snd (put_zones zid n i col ds a d now')"
proof (cases "ZoneUpdate n i col ds a")
  case (Inl e)
  then show ?thesis by (simp add: put_zones_def)
next
  case (Inr zu)
  show ?thesis
  proof (cases "find (\<lambda>z. z_id z = zid) (zones d)")
    case None
    then show ?thesis by (simp add: put_zones_def Inr update_zone_def)
  next
    case (Some z)
    then show ?thesis
      using commit_zone_now [of d z "foldl setattr_zone (load_zone z) (zone_update_dump zu)" now now']
      by (auto simp: put_zones_def Inr update_zone_def Let_def split: sum.splits)
  qed
qed

text \<open>
  Claim C10. The response schemas of cities and zones carry \<open>id\<close>, \<open>is_active\<close> and
  \<open>created_at\<close> of the row and have no \<open>updated_at\<close> field. So the answer of every
  route (the two lists, the two reads, the two creations, the two updates) is the
  same on two stores that differ only in their \<open>updated_at\<close> columns, and the answer
  of an update is the same whatever time the update writes into \<open>updated_at\<close>: the
  refresh is not observable in a response body.
\<close>

theorem responses_omit_updated_at:
  "list_cities sk lm a (touch f g d) = list_cities sk lm a d
   \<and> get_city_with_zones cid (touch f g d) = get_city_with_zones cid d
   \<and> get_zones zc sk lm a (touch f g d) = get_zones zc sk lm a d
   \<and> get_zone zid (touch f g d) = get_zone zid d
   \<and> snd (post_cities n k (touch f g d) now) = snd (post_cities n k d now)
   \<and> snd (put_cities cid un uk ua (touch f g d) now) = snd (put_cities cid un uk ua d now)
   \<and> snd (post_zones n i col ds (touch f g d) now) = snd (post_zones n i col ds d now)
   \<and> snd (put_zones zid un ui ucol uds ua (touch f g d) now)
        = snd (put_zones zid un ui ucol uds ua d now)
   \<and> snd (put_cities cid un uk ua d now) = snd (put_cities cid un uk ua d now')
   \<and> snd (put_zones zid un ui ucol uds ua d now) = snd (put_zones zid un ui ucol uds ua d now')
   \<and> (\<forall>r. CityResponse c = Inr r \<longrightarrow>
          cr_id r = c_id c \<and> cr_is_active r = c_is_active c \<and> cr_created_at r = c_created_at c)
   \<and> (\<forall>r. ZoneResponse z = Inr r \<longrightarrow>
          zr_id r = z_id z \<and> zr_is_active r = z_is_active z \<and> zr_created_at r = z_created_at z)"
proof (intro conjI allI impI)
  fix r assume "CityResponse c = Inr r"
  then show "cr_id r = c_id c" "cr_is_active r = c_is_active c" "cr_created_at r = c_created_at c"
    by (auto simp: CityResponse_def split: if_splits)
next
  fix r assume "ZoneResponse z = Inr r"
  then show "zr_id r = z_id z" "zr_is_active r = z_is_active z" "zr_created_at r = z_created_at z"
    by (auto dest: ZoneResponse_fields)
qed (rule list_cities_touch get_city_with_zones_touch get_zones_touch get_zone_touch
       post_cities_touch put_cities_touch post_zones_touch put_zones_touch
       put_cities_now put_zones_now)+

theorem responses_omit_updated_at_witness:
  "(\<exists>r. CityResponse \<lparr>c_id = 1, c_name = ''Bogota'', c_country = ''Colombia'',
                        c_is_active = True, c_created_at = 0, c_updated_at = 7\<rparr> = Inr r
         \<and> cr_id r = 1 \<and> cr_is_active r \<and> cr_created_at r = 0)
   \<and> snd (put_cities 1 (Value ''Bogota DC'') Absent Absent test_db 5)
        = snd (put_cities 1 (Value ''Bogota DC'') Absent Absent test_db 9)
   \<and> fst (put_cities 1 (Value ''Bogota DC'') Absent Absent test_db 5)
        \<noteq> fst (put_cities 1 (Value ''Bogota DC'') Absent Absent test_db 9)"
proof -
  let ?c = "\<lparr>c_id = 1, c_name = ''Bogota'', c_country = ''Colombia'',
             c_is_active = True, c_created_at = 0, c_updated_at = 7\<rparr>"
  note t = responses_omit_updated_at [where c = ?c and d = test_db and cid = 1
              and un = "Value ''Bogota DC''" and uk = Absent and ua = Absent
              and now = 5 and now' = 9]
  obtain r where r: "CityResponse ?c = Inr r"
    by (simp add: CityResponse_def str_length_ok_def)
  with t have "cr_id r = 1 \<and> cr_is_active r \<and> cr_created_at r = 0" by simp
  moreover from t have "snd (put_cities 1 (Value ''Bogota DC'') Absent Absent test_db 5)
        = snd (put_cities 1 (Value ''Bogota DC'') Absent Absent test_db 9)" by blast
  moreover have "fst (put_cities 1 (Value ''Bogota DC'') Absent Absent test_db 5)
        \<noteq> fst (put_cities 1 (Value ''Bogota DC'') Absent Absent test_db 9)"
    by (simp add: put_cities_def CityUpdate_def optional_str_def str_length_ok_def
          update_city_def test_db_def city_update_dump_def dump_field_def load_city_def
          commit_city_def replace_city_def Let_def)
  ultimately show ?thesis using r by blast
qed

section \<open>Updating a city\<close>

lemma setattrs_city:
  "foldl setattr_city obj (city_update_dump u)
     = \<lparr>co_name = (case cu_name u of Absent \<Rightarrow> co_name obj | Null \<Rightarrow> None | Value v \<Rightarrow> Some v),
        co_country = (case cu_country u of Absent \<Rightarrow> co_country obj | Null \<Rightarrow> None
                      | Value v \<Rightarrow> Some v),
        co_is_active = (case cu_is_active u of Absent \<Rightarrow> co_is_active obj | Null \<Rightarrow> None
                        | Value v \<Rightarrow> Some v)\<rparr>"
  by (cases "cu_name u"; cases "cu_country u"; cases "cu_is_active u")
     (simp_all add: city_update_dump_def dump_field_def)

lemma find_replace_city:
  "find (\<lambda>c. c_id c = c_id row) cs \<noteq> None \<Longrightarrow>
     find (\<lambda>c. c_id c = c_id row) (replace_city row cs) = Some row"
  by (induction cs) (auto simp: replace_city_def)

lemma filter_replace_city:
  "filter (\<lambda>c. c_id c \<noteq> c_id row) (replace_city row cs) = filter (\<lambda>c. c_id c \<noteq> c_id row) cs"
  by (induction cs) (auto simp: replace_city_def)

lemma find_Some_id: "find (\<lambda>c. c_id c = cid) cs = Some c \<Longrightarrow> c_id c = cid"
  by (induction cs) (auto split: if_splits)

lemma commit_city_Inr:
  assumes "commit_city d c obj now = Inr (d', c')"
      and "find (\<lambda>x. c_id x = c_id c) (cities d) = Some c"
  shows "co_name obj = Some (c_name c') \<and> co_country obj = Some (c_country c')
         \<and> co_is_active obj = Some (c_is_active c')
         \<and> c_id c' = c_id c \<and> c_created_at c' = c_created_at c
         \<and> find (\<lambda>x. c_id x = c_id c) (cities d') = Some c'
         \<and> filter (\<lambda>x. c_id x \<noteq> c_id c) (cities d') = filter (\<lambda>x. c_id x \<noteq> c_id c) (cities d)
         \<and> zones d' = zones d"
proof (cases "obj = load_city c")
  case True
  with assms show ?thesis by (simp add: commit_city_def load_city_def)
next
  case False
  with assms(1) obtain n k a where o: "co_name obj = Some n" "co_country obj = Some k"
      "co_is_active obj = Some a"
    and c': "c' = c\<lparr>c_name := n, c_country := k, c_is_active := a, c_updated_at := now\<rparr>"
    and d': "d' = d\<lparr>cities := replace_city c' (cities d)\<rparr>"
    by (auto simp: commit_city_def Let_def split: option.splits if_splits)
  have id: "c_id c' = c_id c" by (simp add: c')
  from assms(2) have "find (\<lambda>x. c_id x = c_id c') (cities d) \<noteq> None" by (simp add: id)
  then have "find (\<lambda>x. c_id x = c_id c') (replace_city c' (cities d)) = Some c'"
    by (rule find_replace_city)
  moreover have "filter (\<lambda>x. c_id x \<noteq> c_id c') (replace_city c' (cities d))
      = filter (\<lambda>x. c_id x \<noteq> c_id c') (cities d)"
    by (rule filter_replace_city)
  ultimately show ?thesis using o by (simp add: id d') (simp add: c')
qed

lemma commit_city_cases:
  "commit_city d c obj now =
     (if obj = load_city c then Inr (d, c)
      else if co_name obj = None \<or> co_country obj = None \<or> co_is_active obj = None
      then Inl (IntegrityError NotNullViolation)
      else if the (co_name obj) \<noteq> c_name c
              \<and> find (\<lambda>x. c_id x \<noteq> c_id c \<and> c_name x = the (co_name obj)) (cities d) \<noteq> None
      then Inl (IntegrityError UniqueViolation)
      else Inr (d\<lparr>cities := replace_city
                    (c\<lparr>c_name := the (co_name obj), c_country := the (co_country obj),
                       c_is_active := the (co_is_active obj), c_updated_at := now\<rparr>) (cities d)\<rparr>,
                c\<lparr>c_name := the (co_name obj), c_country := the (co_country obj),
                       c_is_active := the (co_is_active obj), c_updated_at := now\<rparr>))"
  by (auto simp: commit_city_def Let_def split: option.splits)

text \<open>
  Claim C7, as amended. Take an \<open>update_city\<close> call on an existing city.
  An empty payload succeeds and leaves the store and the row as they are.
  The call succeeds exactly when no field of the payload is null and the name it
  supplies, if it differs from the stored one, is not the name of another city;
  otherwise it fails with an \<open>IntegrityError\<close> (not null or unique) and writes nothing.
  When it succeeds, every field absent from the payload keeps its stored value and
  every field present holds the supplied value, in the returned row and in the
  store; \<open>id\<close> and \<open>created_at\<close>, the other cities and the zones are unchanged.
\<close>

theorem update_city_partial:
  "find (\<lambda>c. c_id c = cid) (cities d) = Some c \<longrightarrow>
     update_city cid \<lparr>cu_name = Absent, cu_country = Absent, cu_is_active = Absent\<rparr> d now
       = Inr (d, c)
     \<and> ((\<exists>d' c'. update_city cid u d now = Inr (d', c')) \<longleftrightarrow>
          cu_name u \<noteq> Null \<and> cu_country u \<noteq> Null \<and> cu_is_active u \<noteq> Null
          \<and> (\<forall>v. cu_name u = Value v \<and> v \<noteq> c_name c \<longrightarrow>
                 find (\<lambda>x. c_id x \<noteq> cid \<and> c_name x = v) (cities d) = None))
     \<and> (\<forall>d' c'. update_city cid u d now = Inr (d', c') \<longrightarrow>
          (cu_name u = Absent \<longrightarrow> c_name c' = c_name c)
          \<and> (\<forall>v. cu_name u = Value v \<longrightarrow> c_name c' = v)
          \<and> (cu_country u = Absent \<longrightarrow> c_country c' = c_country c)
          \<and> (\<forall>v. cu_country u = Value v \<longrightarrow> c_country c' = v)
          \<and> (cu_is_active u = Absent \<longrightarrow> c_is_active c' = c_is_active c)
          \<and> (\<forall>v. cu_is_active u = Value v \<longrightarrow> c_is_active c' = v)
          \<and> c_id c' = c_id c \<and> c_created_at c' = c_created_at c
          \<and> find (\<lambda>c. c_id c = cid) (cities d') = Some c'
          \<and> filter (\<lambda>x. c_id x \<noteq> cid) (cities d') = filter (\<lambda>x. c_id x \<noteq> cid) (cities d)
          \<and> zones d' = zones d)
     \<and> (\<forall>e. update_city cid u d now = Inl e \<longrightarrow>
          e = IntegrityError NotNullViolation \<or> e = IntegrityError UniqueViolation)"
proof (intro impI)
  assume f: "find (\<lambda>c. c_id c = cid) (cities d) = Some c"
  then have id: "c_id c = cid" by (rule find_Some_id)
  let ?obj = "foldl setattr_city (load_city c) (city_update_dump u)"
  have upd: "update_city cid u d now = commit_city d c ?obj now"
    using f by (simp add: update_city_def Let_def)
  have 1: "update_city cid \<lparr>cu_name = Absent, cu_country = Absent, cu_is_active = Absent\<rparr> d now
       = Inr (d, c)"
    using f by (simp add: update_city_def Let_def setattrs_city commit_city_def load_city_def)
  have 2: "(\<exists>d' c'. update_city cid u d now = Inr (d', c')) \<longleftrightarrow>
          cu_name u \<noteq> Null \<and> cu_country u \<noteq> Null \<and> cu_is_active u \<noteq> Null
          \<and> (\<forall>v. cu_name u = Value v \<and> v \<noteq> c_name c \<longrightarrow>
                 find (\<lambda>x. c_id x \<noteq> cid \<and> c_name x = v) (cities d) = None)"
    unfolding upd commit_city_cases setattrs_city
    by (cases "cu_name u"; cases "cu_country u"; cases "cu_is_active u")
       (auto simp: load_city_def id)
  have 3: "\<forall>d' c'. update_city cid u d now = Inr (d', c') \<longrightarrow>
          (cu_name u = Absent \<longrightarrow> c_name c' = c_name c)
          \<and> (\<forall>v. cu_name u = Value v \<longrightarrow> c_name c' = v)
          \<and> (cu_country u = Absent \<longrightarrow> c_country c' = c_country c)
          \<and> (\<forall>v. cu_country u = Value v \<longrightarrow> c_country c' = v)
          \<and> (cu_is_active u = Absent \<longrightarrow> c_is_active c' = c_is_active c)
          \<and> (\<forall>v. cu_is_active u = Value v \<longrightarrow> c_is_active c' = v)
          \<and> c_id c' = c_id c \<and> c_created_at c' = c_created_at c
          \<and> find (\<lambda>c. c_id c = cid) (cities d') = Some c'
          \<and> filter (\<lambda>x. c_id x \<noteq> cid) (cities d') = filter (\<lambda>x. c_id x \<noteq> cid) (cities d)
          \<and> zones d' = zones d"
  proof (intro allI impI)
    fix d' c' assume "update_city cid u d now = Inr (d', c')"
    then have "commit_city d c ?obj now = Inr (d', c')" by (simp add: upd)
    from commit_city_Inr [OF this] f
    have r: "co_name ?obj = Some (c_name c')" "co_country ?obj = Some (c_country c')"
         "co_is_active ?obj = Some (c_is_active c')"
         "c_id c' = c_id c \<and> c_created_at c' = c_created_at c
         \<and> find (\<lambda>x. c_id x = cid) (cities d') = Some c'
         \<and> filter (\<lambda>x. c_id x \<noteq> cid) (cities d') = filter (\<lambda>x. c_id x \<noteq> cid) (cities d)
         \<and> zones d' = zones d"
      by (simp_all add: id)
    from r(1) have n: "(cu_name u = Absent \<longrightarrow> c_name c' = c_name c)
          \<and> (\<forall>v. cu_name u = Value v \<longrightarrow> c_name c' = v)"
      by (auto simp: setattrs_city load_city_def)
    from r(2) have k: "(cu_country u = Absent \<longrightarrow> c_country c' = c_country c)
          \<and> (\<forall>v. cu_country u = Value v \<longrightarrow> c_country c' = v)"
      by (auto simp: setattrs_city load_city_def)
    from r(3) have a: "(cu_is_active u = Absent \<longrightarrow> c_is_active c' = c_is_active c)
          \<and> (\<forall>v. cu_is_active u = Value v \<longrightarrow> c_is_active c' = v)"
      by (auto simp: setattrs_city load_city_def)
    from n k a r(4) show "(cu_name u = Absent \<longrightarrow> c_name c' = c_name c)
          \<and> (\<forall>v. cu_name u = Value v \<longrightarrow> c_name c' = v)
          \<and> (cu_country u = Absent \<longrightarrow> c_country c' = c_country c)
          \<and> (\<forall>v. cu_country u = Value v \<longrightarrow> c_country c' = v)
          \<and> (cu_is_active u = Absent \<longrightarrow> c_is_active c' = c_is_active c)
          \<and> (\<forall>v. cu_is_active u = Value v \<longrightarrow> c_is_active c' = v)
          \<and> c_id c' = c_id c \<and> c_created_at c' = c_created_at c
          \<and> find (\<lambda>c. c_id c = cid) (cities d') = Some c'
          \<and> filter (\<lambda>x. c_id x \<noteq> cid) (cities d') = filter (\<lambda>x. c_id x \<noteq> cid) (cities d)
          \<and> zones d' = zones d"
      by blast
  qed
  have 4: "\<forall>e. update_city cid u d now = Inl e \<longrightarrow>
          e = IntegrityError NotNullViolation \<or> e = IntegrityError UniqueViolation"
    unfolding upd commit_city_cases by (auto split: if_splits)
  from 1 2 3 4 show "update_city cid \<lparr>cu_name = Absent, cu_country = Absent, cu_is_active = Absent\<rparr> d now
       = Inr (d, c)
     \<and> ((\<exists>d' c'. update_city cid u d now = Inr (d', c')) \<longleftrightarrow>
          cu_name u \<noteq> Null \<and> cu_country u \<noteq> Null \<and> cu_is_active u \<noteq> Null
          \<and> (\<forall>v. cu_name u = Value v \<and> v \<noteq> c_name c \<longrightarrow>
                 find (\<lambda>x. c_id x \<noteq> cid \<and> c_name x = v) (cities d) = None))
     \<and> (\<forall>d' c'. update_city cid u d now = Inr (d', c') \<longrightarrow>
          (cu_name u = Absent \<longrightarrow> c_name c' = c_name c)
          \<and> (\<forall>v. cu_name u = Value v \<longrightarrow> c_name c' = v)
          \<and> (cu_country u = Absent \<longrightarrow> c_country c' = c_country c)
          \<and> (\<forall>v. cu_country u = Value v \<longrightarrow> c_country c' = v)
          \<and> (cu_is_active u = Absent \<longrightarrow> c_is_active c' = c_is_active c)
          \<and> (\<forall>v. cu_is_active u = Value v \<longrightarrow> c_is_active c' = v)
          \<and> c_id c' = c_id c \<and> c_created_at c' = c_created_at c
          \<and> find (\<lambda>c. c_id c = cid) (cities d') = Some c'
          \<and> filter (\<lambda>x. c_id x \<noteq> cid) (cities d') = filter (\<lambda>x. c_id x \<noteq> cid) (cities d)
          \<and> zones d' = zones d)
     \<and> (\<forall>e. update_city cid u d now = Inl e \<longrightarrow>
          e = IntegrityError NotNullViolation \<or> e = IntegrityError UniqueViolation)"
    by (intro conjI)
qed

theorem update_city_partial_witness:
  "(\<exists>d' c'. update_city 2 \<lparr>cu_name = Value ''Cali'', cu_country = Absent,
                             cu_is_active = Value False\<rparr> test_db 5 = Inr (d', c')
       \<and> c_name c' = ''Cali'' \<and> c_country c' = ''Colombia'' \<and> c_is_active c' = False
       \<and> c_id c' = 2 \<and> find (\<lambda>c. c_id c = 2) (cities d') = Some c')
   \<and> update_city 2 \<lparr>cu_name = Absent, cu_country = Absent, cu_is_active = Absent\<rparr> test_db 5
       = Inr (test_db, \<lparr>c_id = 2, c_name = ''Medellin'', c_country = ''Colombia'',
                        c_is_active = True, c_created_at = 0, c_updated_at = 0\<rparr>)"
proof -
  let ?c = "\<lparr>c_id = 2, c_name = ''Medellin'', c_country = ''Colombia'',
                        c_is_active = True, c_created_at = 0, c_updated_at = 0\<rparr>"
  let ?u = "\<lparr>cu_name = Value ''Cali'', cu_country = Absent, cu_is_active = Value False\<rparr>"
  have f: "find (\<lambda>c. c_id c = 2) (cities test_db) = Some ?c"
    by (simp add: test_db_def)
  note t = update_city_partial [of 2 test_db ?c 5 ?u, rule_format, OF f]
  have free: "find (\<lambda>x. c_id x \<noteq> 2 \<and> c_name x = ''Cali'') (cities test_db) = None"
    by (simp add: test_db_def)
  from t free obtain d' c' where r: "update_city 2 ?u test_db 5 = Inr (d', c')"
    by auto
  with t have "c_name c' = ''Cali'' \<and> c_country c' = ''Colombia'' \<and> c_is_active c' = False
       \<and> c_id c' = 2 \<and> find (\<lambda>c. c_id c = 2) (cities d') = Some c'"
    by auto
  with r t show ?thesis by blast
qed

text \<open>
  The claim as it was stated (every field present in the payload is overwritten, for
  every call on an existing city) fails on the store of the test suite: the payload
  \<open>{"name": "Bogota"}\<close> for city 2 is refused by the unique constraint on
  \<open>cities.name\<close>, and the stored name of city 2 stays \<open>Medellin\<close>.
\<close>

theorem update_city_overwrite_counterexample:
  "find (\<lambda>c. c_id c = 2) (cities test_db)
     = Some \<lparr>c_id = 2, c_name = ''Medellin'', c_country = ''Colombia'',
             c_is_active = True, c_created_at = 0, c_updated_at = 0\<rparr>
   \<and> update_city 2 \<lparr>cu_name = Value ''Bogota'', cu_country = Absent, cu_is_active = Absent\<rparr>
        test_db 1 = Inl (IntegrityError UniqueViolation)"
  by (simp add: test_db_def update_city_def city_update_dump_def dump_field_def load_city_def
        commit_city_def Let_def)

section \<open>Creating a city\<close>

lemma find_None_name:
  "find (\<lambda>c. c_name c = n) cs = None \<longleftrightarrow> n \<notin> c_name ` set cs"
  by (auto simp: find_None_iff)

lemma CityCreate_valid:
  "CityCreate n k = Inr city_data \<Longrightarrow>
     n = Value (cc_name city_data) \<and> str_length_ok 2 255 (cc_name city_data)
     \<and> str_length_ok 0 100 (cc_country city_data)
     \<and> (k = Absent \<and> cc_country city_data = ''Colombia'' \<or> k = Value (cc_country city_data))"
  by (cases n; cases k)
     (auto simp: CityCreate_def required_str_def country_errors_def str_length_ok_def Let_def
           split: if_splits)

text \<open>
  Claim C6, as amended. When the pre-check of \<open>create_city\<close> and its commit meet the
  same store, the call answers \<open>Conflict\<close> if a city has the name, and otherwise
  appends the new row (the id from the sequence, \<open>is_active\<close> true, both timestamps
  the time of the commit) and returns it; the route answers with that row's response.
  Whatever store the pre-check read, a name the pre-check saw gives \<open>Conflict\<close>; a name
  the pre-check did not see but the store holds at the commit gives the store's
  \<open>IntegrityError\<close>, which no handler turns into \<open>Conflict\<close>. No call leaves two cities with
  one name, and on a store whose ids are below the sequence the new id is fresh.
\<close>

theorem create_city_conflict_or_insert:
  "(cc_name city_data \<in> c_name ` set (cities d) \<longrightarrow> create_city city_data d now = Inl Conflict)
   \<and> (cc_name city_data \<notin> c_name ` set (cities d) \<longrightarrow>
        create_city city_data d now
          = Inr (d\<lparr>cities := cities d
                     @ [\<lparr>c_id = next_city_id d, c_name = cc_name city_data,
                         c_country = cc_country city_data, c_is_active = True,
                         c_created_at = now, c_updated_at = now\<rparr>],
                   next_city_id := next_city_id d + 1\<rparr>,
                 \<lparr>c_id = next_city_id d, c_name = cc_name city_data,
                  c_country = cc_country city_data, c_is_active = True,
                  c_created_at = now, c_updated_at = now\<rparr>))
   \<and> (cc_name city_data \<in> c_name ` set (cities seen) \<longrightarrow>
        create_city_at city_data seen d now = Inl Conflict)
   \<and> (cc_name city_data \<notin> c_name ` set (cities seen)
        \<and> cc_name city_data \<in> c_name ` set (cities d) \<longrightarrow>
        create_city_at city_data seen d now = Inl (IntegrityError UniqueViolation))
   \<and> (\<forall>d' row. create_city_at city_data seen d now = Inr (d', row)
        \<and> distinct (map c_name (cities d)) \<longrightarrow> distinct (map c_name (cities d')))
   \<and> (\<forall>d' row. create_city city_data d now = Inr (d', row)
        \<and> (\<forall>c \<in> set (cities d). c_id c < next_city_id d) \<longrightarrow>
          c_id row \<notin> c_id ` set (cities d)
          \<and> (\<forall>c \<in> set (cities d'). c_id c < next_city_id d'))
   \<and> (CityCreate n k = Inr city_data \<longrightarrow>
        snd (post_cities n k d now)
          = (if cc_name city_data \<in> c_name ` set (cities d) then Inl Conflict
             else Inr \<lparr>cr_id = next_city_id d, cr_name = cc_name city_data,
                       cr_country = cc_country city_data, cr_is_active = True,
                       cr_created_at = now\<rparr>))"
proof (intro conjI impI allI)
  assume "cc_name city_data \<in> c_name ` set (cities d)"
  then have "find (\<lambda>c. c_name c = cc_name city_data) (cities d) \<noteq> None"
    by (simp add: find_None_name)
  then show "create_city city_data d now = Inl Conflict"
    by (auto simp: create_city_def create_city_at_def)
next
  assume "cc_name city_data \<notin> c_name ` set (cities d)"
  then have "find (\<lambda>c. c_name c = cc_name city_data) (cities d) = None"
    by (simp add: find_None_name)
  then show "create_city city_data d now
          = Inr (d\<lparr>cities := cities d
                     @ [\<lparr>c_id = next_city_id d, c_name = cc_name city_data,
                         c_country = cc_country city_data, c_is_active = True,
                         c_created_at = now, c_updated_at = now\<rparr>],
                   next_city_id := next_city_id d + 1\<rparr>,
                 \<lparr>c_id = next_city_id d, c_name = cc_name city_data,
                  c_country = cc_country city_data, c_is_active = True,
                  c_created_at = now, c_updated_at = now\<rparr>)"
    by (simp add: create_city_def create_city_at_def insert_city_def Let_def)
next
  assume "cc_name city_data \<in> c_name ` set (cities seen)"
  then have "find (\<lambda>c. c_name c = cc_name city_data) (cities seen) \<noteq> None"
    by (simp add: find_None_name)
  then show "create_city_at city_data seen d now = Inl Conflict"
    by (auto simp: create_city_at_def)
next
  assume "cc_name city_data \<notin> c_name ` set (cities seen)
        \<and> cc_name city_data \<in> c_name ` set (cities d)"
  then have "find (\<lambda>c. c_name c = cc_name city_data) (cities seen) = None"
      and "find (\<lambda>c. c_name c = cc_name city_data) (cities d) \<noteq> None"
    by (simp_all add: find_None_name)
  then show "create_city_at city_data seen d now = Inl (IntegrityError UniqueViolation)"
    by (auto simp: create_city_at_def insert_city_def)
next
  fix d' row
  assume a: "create_city_at city_data seen d now = Inr (d', row)
        \<and> distinct (map c_name (cities d))"
  then have "insert_city d (cc_name city_data) (cc_country city_data) now = Inr (d', row)"
    by (auto simp: create_city_at_def split: option.splits)
  then have "find (\<lambda>c. c_name c = cc_name city_data) (cities d) = None"
      and "map c_name (cities d') = map c_name (cities d) @ [cc_name city_data]"
    by (auto simp: insert_city_def Let_def split: if_splits)
  with a show "distinct (map c_name (cities d'))"
    by (simp add: find_None_name)
next
  fix d' row
  assume a: "create_city city_data d now = Inr (d', row)
        \<and> (\<forall>c \<in> set (cities d). c_id c < next_city_id d)"
  then have r: "c_id row = next_city_id d" "cities d' = cities d @ [row]"
      "next_city_id d' = next_city_id d + 1"
    by (auto simp: create_city_def create_city_at_def insert_city_def Let_def
             split: option.splits if_splits)
  from a r show "c_id row \<notin> c_id ` set (cities d)" by auto
  from a r show "\<forall>c \<in> set (cities d'). c_id c < next_city_id d'" by auto
next
  assume v: "CityCreate n k = Inr city_data"
  then have ok: "str_length_ok 2 255 (cc_name city_data)" "str_length_ok 0 100 (cc_country city_data)"
    by (auto dest: CityCreate_valid)
  show "snd (post_cities n k d now)
          = (if cc_name city_data \<in> c_name ` set (cities d) then Inl Conflict
             else Inr \<lparr>cr_id = next_city_id d, cr_name = cc_name city_data,
                       cr_country = cc_country city_data, cr_is_active = True,
                       cr_created_at = now\<rparr>)"
  proof (cases "find (\<lambda>c. c_name c = cc_name city_data) (cities d)")
    case None
    then show ?thesis using ok
      by (simp add: post_cities_def v create_city_def create_city_at_def insert_city_def
            Let_def CityResponse_def find_None_name [symmetric])
  next
    case (Some c)
    then have "cc_name city_data \<in> c_name ` set (cities d)"
      using find_None_name [of "cc_name city_data" "cities d"] by simp
    with Some show ?thesis
      by (simp add: post_cities_def v create_city_def create_city_at_def)
  qed
qed

theorem create_city_conflict_or_insert_witness:
  "create_city \<lparr>cc_name = ''Bogota'', cc_country = ''Colombia''\<rparr> test_db 1 = Inl Conflict
   \<and> (\<exists>d'. create_city \<lparr>cc_name = ''Cali'', cc_country = ''Colombia''\<rparr> test_db 1
          = Inr (d', \<lparr>c_id = 3, c_name = ''Cali'', c_country = ''Colombia'',
                      c_is_active = True, c_created_at = 1, c_updated_at = 1\<rparr>)
        \<and> map c_name (cities d') = [''Bogota'', ''Medellin'', ''Cali''])"
proof -
  have "create_city \<lparr>cc_name = ''Bogota'', cc_country = ''Colombia''\<rparr> test_db 1 = Inl Conflict"
    using create_city_conflict_or_insert
            [of "\<lparr>cc_name = ''Bogota'', cc_country = ''Colombia''\<rparr>" test_db 1]
    by (simp add: test_db_def)
  moreover have "\<exists>d'. create_city \<lparr>cc_name = ''Cali'', cc_country = ''Colombia''\<rparr> test_db 1
          = Inr (d', \<lparr>c_id = 3, c_name = ''Cali'', c_country = ''Colombia'',
                      c_is_active = True, c_created_at = 1, c_updated_at = 1\<rparr>)
        \<and> map c_name (cities d') = [''Bogota'', ''Medellin'', ''Cali'']"
    using create_city_conflict_or_insert
            [of "\<lparr>cc_name = ''Cali'', cc_country = ''Colombia''\<rparr>" test_db 1]
    by (simp add: test_db_def)
  ultimately show ?thesis by blast
qed

text \<open>
  The claim as it was stated (a duplicate the store finds during the insert yields
  \<open>Conflict\<close>) fails: on the store of the test suite the pre-check for \<open>Cali\<close> passes,
  another request creates \<open>Cali\<close>, and the commit of the first request is refused by
  the unique constraint. The outcome is \<open>IntegrityError\<close> (status 500), not \<open>Conflict\<close>
  (status 400).
\<close>

theorem create_city_race_counterexample:
  "\<exists>d1 r1. find (\<lambda>c. c_name c = ''Cali'') (cities test_db) = None
     \<and> create_city \<lparr>cc_name = ''Cali'', cc_country = ''Colombia''\<rparr> test_db 1 = Inr (d1, r1)
     \<and> create_city_at \<lparr>cc_name = ''Cali'', cc_country = ''Colombia''\<rparr> test_db d1 2
          = Inl (IntegrityError UniqueViolation)
     \<and> IntegrityError UniqueViolation \<noteq> Conflict
     \<and> status_code (IntegrityError UniqueViolation) = 500 \<and> status_code Conflict = 400"
  by (simp add: test_db_def create_city_def create_city_at_def insert_city_def Let_def)

section \<open>What the routes keep\<close>

text \<open>
  Facts about the write paths: the colour a creation stores, the checks of
  \<open>create_zone\<close>, the object after the \<open>setattr\<close> loop of \<open>update_zone\<close>, and three
  properties of the store that the four writing routes keep: the rows pass their
  response schemas (\<open>rows_ok\<close>), every zone references a city (\<open>references_ok\<close>), and,
  for the creation of a zone, the keys \<open>(name, city_id)\<close> stay distinct.
\<close>

subsection \<open>Colours\<close>

lemma upper_char_hex: "hex_digit c \<Longrightarrow> upper_char c \<in> set ''0123456789ABCDEF''"
  unfolding hex_digit_def by (elim disjE | simp add: upper_char_def)+

lemma upper_char_hash: "upper_char CHR ''#'' = CHR ''#''"
  by (simp add: upper_char_def)

lemma upper_color_pattern:
  assumes "color_pattern v"
  shows "upper_hex_color (upper v)"
proof (cases v)
  case Nil
  with assms show ?thesis by (simp add: color_pattern_def)
next
  case (Cons h ds)
  with assms have h: "h = CHR ''#''" and l: "length ds = 6" and x: "list_all hex_digit ds"
    by (simp_all add: color_pattern_def)
  from x have u: "list_all (\<lambda>c. c \<in> set ''0123456789ABCDEF'') (map upper_char ds)"
    unfolding list_all_iff using upper_char_hex by auto
  have "upper v = CHR ''#'' # map upper_char ds"
    by (simp only: Cons h upper_def list.map upper_char_hash)
  then show ?thesis
    unfolding upper_hex_color_def by (simp only: list.case length_map l u simp_thms)
qed

lemma upper_hex_digit: "c \<in> set ''0123456789ABCDEF'' \<Longrightarrow> hex_digit c"
  unfolding hex_digit_def by (elim disjE | simp)+

lemma upper_hex_color_pattern:
  assumes "upper_hex_color v"
  shows "color_pattern v"
proof (cases v)
  case Nil
  with assms show ?thesis by (simp add: upper_hex_color_def)
next
  case (Cons h ds)
  with assms have h: "h = CHR ''#''" and l: "length ds = 6"
    and x: "list_all (\<lambda>c. c \<in> set ''0123456789ABCDEF'') ds"
    by (simp_all only: upper_hex_color_def list.case)
  from x have u: "list_all hex_digit ds"
    unfolding list_all_iff using upper_hex_digit by blast
  show ?thesis
    unfolding color_pattern_def Cons by (simp only: list.case h l u simp_thms)
qed

lemma ZoneCreate_color:
  "ZoneCreate n i (Value col) ds = Inr zd \<Longrightarrow> color_pattern col \<and> zc_color zd = upper col"
  by (auto simp: ZoneCreate_def ZoneBase_color_def errors_of_def Let_def color_pattern_validate
           split: if_splits)

lemma ZoneCreate_rejects_color:
  "\<not> color_pattern col \<Longrightarrow> \<exists>fs. ZoneCreate n i (Value col) ds = Inl (ValidationError fs) \<and> ''color'' \<in> set fs"
  by (simp add: ZoneCreate_def ZoneBase_color_def errors_of_def Let_def)

lemma ZoneUpdate_rejects_color:
  "\<not> color_pattern col \<Longrightarrow> \<exists>fs. ZoneUpdate n i (Value col) ds a = Inl (ValidationError fs) \<and> ''color'' \<in> set fs"
  by (simp add: ZoneUpdate_def optional_color_def Let_def)

subsection \<open>Creating a zone\<close>

lemma find_None_key:
  "find (\<lambda>z. z_name z = n \<and> z_city_id z = i) (zones d) = None \<longleftrightarrow> (n, i) \<notin> set (zone_keys d)"
  by (auto simp: find_None_iff zone_keys_def)

lemma find_None_city: "find (\<lambda>c. c_id c = i) (cities d) = None \<longleftrightarrow> i \<notin> city_ids d"
  by (auto simp: find_None_iff city_ids_def)

lemma create_zone_cases:
  "create_zone zd d now =
     (if zc_city_id zd \<notin> city_ids d then Inl NotFound
      else if (zc_name zd, zc_city_id zd) \<in> set (zone_keys d) then Inl Conflict
      else Inr (d\<lparr>zones := zones d
                   @ [\<lparr>z_id = next_zone_id d, z_name = zc_name zd, z_city_id = zc_city_id zd,
                       z_color = zc_color zd, z_description = zc_description zd,
                       z_is_active = True, z_created_at = now, z_updated_at = now\<rparr>],
                 next_zone_id := next_zone_id d + 1\<rparr>,
               \<lparr>z_id = next_zone_id d, z_name = zc_name zd, z_city_id = zc_city_id zd,
                z_color = zc_color zd, z_description = zc_description zd,
                z_is_active = True, z_created_at = now, z_updated_at = now\<rparr>))"
proof -
  have "find (\<lambda>c. c_id c = zc_city_id zd) (cities d) = None \<longleftrightarrow> zc_city_id zd \<notin> city_ids d"
    by (rule find_None_city)
  moreover have "find (\<lambda>z. z_name z = zc_name zd \<and> z_city_id z = zc_city_id zd) (zones d) = None
      \<longleftrightarrow> (zc_name zd, zc_city_id zd) \<notin> set (zone_keys d)"
    by (rule find_None_key)
  ultimately show ?thesis
    by (auto simp: create_zone_def insert_zone_def Let_def split: option.splits)
qed

lemma create_zone_keys_distinct:
  "distinct (zone_keys d) \<Longrightarrow> create_zone zd d now = Inr (d', z) \<Longrightarrow> distinct (zone_keys d')"
  by (auto simp: create_zone_cases zone_keys_def split: if_splits)

lemma create_zone_references_city:
  "z_city_id ` set (zones d) \<subseteq> city_ids d \<Longrightarrow> create_zone zd d now = Inr (d', z) \<Longrightarrow>
     z_city_id ` set (zones d') \<subseteq> city_ids d'"
proof -
  assume fk: "z_city_id ` set (zones d) \<subseteq> city_ids d"
    and r: "create_zone zd d now = Inr (d', z)"
  from r have "zc_city_id zd \<in> city_ids d"
    and "zones d' = zones d @ [z]" and "z_city_id z = zc_city_id zd" and "cities d' = cities d"
    by (auto simp: create_zone_cases split: if_splits)
  with fk show ?thesis by (auto simp: city_ids_def)
qed

subsection \<open>The object after the \<open>setattr\<close> loop, and the commit\<close>

lemma dump_name:
  "foldl setattr_zone obj (dump_field ZName f)
     = obj\<lparr>zo_name := (case f of Absent \<Rightarrow> zo_name obj | Null \<Rightarrow> None | Value v \<Rightarrow> Some v)\<rparr>"
  by (cases f) (simp_all add: dump_field_def)

lemma dump_city_id:
  "foldl setattr_zone obj (dump_field ZCity_id f)
     = obj\<lparr>zo_city_id := (case f of Absent \<Rightarrow> zo_city_id obj | Null \<Rightarrow> None | Value v \<Rightarrow> Some v)\<rparr>"
  by (cases f) (simp_all add: dump_field_def)

lemma dump_color:
  "foldl setattr_zone obj (dump_field ZColor f)
     = obj\<lparr>zo_color := (case f of Absent \<Rightarrow> zo_color obj | Null \<Rightarrow> None | Value v \<Rightarrow> Some v)\<rparr>"
  by (cases f) (simp_all add: dump_field_def)

lemma dump_description:
  "foldl setattr_zone obj (dump_field ZDescription f)
     = obj\<lparr>zo_description := (case f of Absent \<Rightarrow> zo_description obj | Null \<Rightarrow> None
                                | Value v \<Rightarrow> Some v)\<rparr>"
  by (cases f) (simp_all add: dump_field_def)

lemma dump_is_active:
  "foldl setattr_zone obj (dump_field ZIs_active f)
     = obj\<lparr>zo_is_active := (case f of Absent \<Rightarrow> zo_is_active obj | Null \<Rightarrow> None
                              | Value v \<Rightarrow> Some v)\<rparr>"
  by (cases f) (simp_all add: dump_field_def)

lemma setattrs_zone:
  "foldl setattr_zone obj (zone_update_dump u)
     = \<lparr>zo_name = (case zu_name u of Absent \<Rightarrow> zo_name obj | Null \<Rightarrow> None | Value v \<Rightarrow> Some v),
        zo_city_id = (case zu_city_id u of Absent \<Rightarrow> zo_city_id obj | Null \<Rightarrow> None
                      | Value v \<Rightarrow> Some v),
        zo_color = (case zu_color u of Absent \<Rightarrow> zo_color obj | Null \<Rightarrow> None
                    | Value v \<Rightarrow> Some v),
        zo_description = (case zu_description u of Absent \<Rightarrow> zo_description obj | Null \<Rightarrow> None
                          | Value v \<Rightarrow> Some v),
        zo_is_active = (case zu_is_active u of Absent \<Rightarrow> zo_is_active obj | Null \<Rightarrow> None
                        | Value v \<Rightarrow> Some v)\<rparr>"
  by (simp add: zone_update_dump_def dump_name dump_city_id dump_color dump_description
        dump_is_active cong: field.case_cong)

lemma list_all_replace_city:
  "P row \<Longrightarrow> list_all P cs \<Longrightarrow> list_all P (replace_city row cs)"
  by (auto simp: replace_city_def list_all_iff)

lemma list_all_replace_zone:
  "P row \<Longrightarrow> list_all P zs \<Longrightarrow> list_all P (replace_zone row zs)"
  by (auto simp: replace_zone_def list_all_iff)

lemma commit_city_store:
  "commit_city d c obj now = Inr (d', c') \<Longrightarrow>
     zones d' = zones d
     \<and> (cities d' = cities d \<and> c' = c \<or> cities d' = replace_city c' (cities d))
     \<and> co_name obj = Some (c_name c') \<and> co_country obj = Some (c_country c')"
  by (auto simp: commit_city_def load_city_def Let_def split: if_splits option.splits)

lemma commit_zone_store:
  "commit_zone d z obj now = Inr (d', z') \<Longrightarrow>
     cities d' = cities d
     \<and> (zones d' = zones d \<and> z' = z \<or> zones d' = replace_zone z' (zones d))
     \<and> zo_name obj = Some (z_name z') \<and> zo_city_id obj = Some (z_city_id z')
     \<and> zo_color obj = Some (z_color z')
     \<and> (z_city_id z' = z_city_id z \<or> z_city_id z' \<in> city_ids d)"
  by (auto simp: commit_zone_def load_zone_def Let_def find_None_city
           split: if_splits option.splits)

subsection \<open>Rows that pass their response schemas\<close>

lemma CityUpdate_valid:
  "CityUpdate n k a = Inr u \<Longrightarrow>
     u = \<lparr>cu_name = n, cu_country = k, cu_is_active = a\<rparr>
     \<and> (\<forall>v. n = Value v \<longrightarrow> str_length_ok 2 255 v)
     \<and> (\<forall>v. k = Value v \<longrightarrow> str_length_ok 0 100 v)"
  by (cases n; cases k) (auto simp: CityUpdate_def optional_str_def Let_def split: if_splits)

lemma color_pattern_upper: "color_pattern v \<Longrightarrow> color_pattern (upper v)"
  by (rule upper_hex_color_pattern) (rule upper_color_pattern)

lemma default_color_pattern: "color_pattern ''#3498db''"
  by (simp add: color_pattern_def hex_digit_def)

lemma ZoneBase_color_valid: "ZoneBase_color f = Inr v \<Longrightarrow> color_pattern v"
  by (cases f)
     (auto simp: ZoneBase_color_def color_pattern_validate default_color_pattern
           color_pattern_upper split: if_splits)

lemma ZoneBase_color_error: "ZoneBase_color f = Inl es \<Longrightarrow> es = [''color'']"
  by (cases f) (auto simp: ZoneBase_color_def split: if_splits sum.splits)

lemma ZoneCreate_valid:
  "ZoneCreate n i col ds = Inr zd \<Longrightarrow>
     str_length_ok 2 255 (zc_name zd) \<and> zc_city_id zd > 0 \<and> color_pattern (zc_color zd)"
proof -
  assume a: "ZoneCreate n i col ds = Inr zd"
  then obtain v where v: "ZoneBase_color col = Inr v"
    by (cases "ZoneBase_color col")
       (auto simp: ZoneCreate_def errors_of_def Let_def split: if_splits dest: ZoneBase_color_error)
  from a v have "str_length_ok 2 255 (zc_name zd) \<and> zc_city_id zd > 0 \<and> zc_color zd = v"
    by (cases n; cases i)
       (auto simp: ZoneCreate_def required_str_def required_city_id_def errors_of_def Let_def
             split: if_splits)
  with ZoneBase_color_valid [OF v] show ?thesis by simp
qed

lemma ZoneUpdate_valid:
  "ZoneUpdate n i col ds a = Inr u \<Longrightarrow>
     u = \<lparr>zu_name = n, zu_city_id = i, zu_color = col, zu_description = ds, zu_is_active = a\<rparr>
     \<and> (\<forall>v. n = Value v \<longrightarrow> str_length_ok 2 255 v)
     \<and> (\<forall>v. i = Value v \<longrightarrow> v > 0)
     \<and> (\<forall>v. col = Value v \<longrightarrow> color_pattern v)"
  by (cases n; cases i; cases col)
     (auto simp: ZoneUpdate_def optional_str_def optional_city_id_def optional_color_def Let_def
      split: if_splits)

lemma post_cities_rows_ok:
  assumes "rows_ok d"
  shows "rows_ok (fst (post_cities n k d now))"
proof (cases "CityCreate n k")
  case (Inl e)
  with assms show ?thesis by (simp add: post_cities_def)
next
  case (Inr cd)
  then have "city_row_ok \<lparr>c_id = next_city_id d, c_name = cc_name cd, c_country = cc_country cd,
               c_is_active = True, c_created_at = now, c_updated_at = now\<rparr>"
    by (auto simp: city_row_ok_def dest: CityCreate_valid)
  with assms show ?thesis
    by (auto simp: post_cities_def Inr create_city_def create_city_at_def insert_city_def
          Let_def rows_ok_def split: option.splits)
qed

lemma put_cities_rows_ok:
  assumes "rows_ok d"
  shows "rows_ok (fst (put_cities cid n k a d now))"
proof (cases "CityUpdate n k a")
  case (Inl e)
  with assms show ?thesis by (simp add: put_cities_def)
next
  case (Inr u)
  note v = CityUpdate_valid [OF Inr]
  show ?thesis
  proof (cases "update_city cid u d now")
    case (Inl e)
    with assms show ?thesis by (simp add: put_cities_def Inr)
  next
    case r: (Inr p)
    obtain d' c' where p: "p = (d', c')" by (cases p)
    from r p obtain c where c: "find (\<lambda>c. c_id c = cid) (cities d) = Some c"
      and cm: "commit_city d c (foldl setattr_city (load_city c) (city_update_dump u)) now
                = Inr (d', c')"
      by (auto simp: update_city_def Let_def split: option.splits)
    from c have "c \<in> set (cities d)" by (auto dest: find_Some_set)
    with assms have cok: "city_row_ok c" by (simp add: rows_ok_def list_all_iff)
    note s = commit_city_store [OF cm]
    from s v cok have "city_row_ok c'"
      by (cases n; cases k) (auto simp: setattrs_city load_city_def city_row_ok_def)
    with s assms have "rows_ok d'"
      by (auto simp: rows_ok_def list_all_replace_city)
    then show ?thesis by (simp add: put_cities_def Inr r p)
  qed
qed

lemma post_zones_rows_ok:
  assumes "rows_ok d"
  shows "rows_ok (fst (post_zones n i col ds d now))"
proof (cases "ZoneCreate n i col ds")
  case (Inl e)
  with assms show ?thesis by (simp add: post_zones_def)
next
  case (Inr zd)
  then have "zone_row_ok \<lparr>z_id = next_zone_id d, z_name = zc_name zd, z_city_id = zc_city_id zd,
                z_color = zc_color zd, z_description = zc_description zd,
                z_is_active = True, z_created_at = now, z_updated_at = now\<rparr>"
    by (auto simp: zone_row_ok_def dest: ZoneCreate_valid)
  with assms show ?thesis
    by (auto simp: post_zones_def Inr create_zone_cases rows_ok_def)
qed

lemma put_zones_rows_ok:
  assumes "rows_ok d"
  shows "rows_ok (fst (put_zones zid n i col ds a d now))"
proof (cases "ZoneUpdate n i col ds a")
  case (Inl e)
  with assms show ?thesis by (simp add: put_zones_def)
next
  case (Inr u)
  note v = ZoneUpdate_valid [OF Inr]
  show ?thesis
  proof (cases "update_zone zid u d now")
    case (Inl e)
    with assms show ?thesis by (simp add: put_zones_def Inr)
  next
    case r: (Inr p)
    obtain d' z' where p: "p = (d', z')" by (cases p)
    from r p obtain z where z: "find (\<lambda>z. z_id z = zid) (zones d) = Some z"
      and cm: "commit_zone d z (foldl setattr_zone (load_zone z) (zone_update_dump u)) now
                = Inr (d', z')"
      by (auto simp: update_zone_def Let_def split: option.splits)
    from z have "z \<in> set (zones d)" by (auto dest: find_Some_set)
    with assms have zok: "zone_row_ok z" by (simp add: rows_ok_def list_all_iff)
    note s = commit_zone_store [OF cm]
    from s v zok have "zone_row_ok z'"
      by (cases n; cases i; cases col)
         (auto simp: setattrs_zone load_zone_def zone_row_ok_def)
    with s assms have "rows_ok d'"
      by (auto simp: rows_ok_def list_all_replace_zone)
    then show ?thesis by (simp add: put_zones_def Inr r p)
  qed
qed

subsection \<open>References and keys\<close>

lemma ZoneCreate_color_upper:
  "ZoneCreate n i (Value col) ds = Inr zd \<Longrightarrow> upper_hex_color (zc_color zd)"
  by (auto dest!: ZoneCreate_color intro: upper_color_pattern)

lemma replace_city_ids: "c_id ` set (replace_city row cs) = c_id ` set cs"
  by (induction cs) (auto simp: replace_city_def)

lemma post_cities_references_ok:
  assumes "references_ok d"
  shows "references_ok (fst (post_cities n k d now))"
  using assms
  by (auto simp: post_cities_def create_city_def create_city_at_def insert_city_def Let_def
        references_ok_def city_ids_def split: sum.splits option.splits if_splits)

lemma put_cities_references_ok:
  assumes "references_ok d"
  shows "references_ok (fst (put_cities cid n k a d now))"
proof (cases "CityUpdate n k a")
  case (Inl e)
  with assms show ?thesis by (simp add: put_cities_def)
next
  case (Inr u)
  show ?thesis
  proof (cases "update_city cid u d now")
    case (Inl e)
    with assms show ?thesis by (simp add: put_cities_def Inr)
  next
    case r: (Inr p)
    obtain d' c' where p: "p = (d', c')" by (cases p)
    from r p obtain c where
      cm: "commit_city d c (foldl setattr_city (load_city c) (city_update_dump u)) now
                = Inr (d', c')"
      by (auto simp: update_city_def Let_def split: option.splits)
    from commit_city_store [OF cm] have zs: "zones d' = zones d"
      and "cities d' = cities d \<or> cities d' = replace_city c' (cities d)"
      by blast+
    then have "city_ids d' = city_ids d"
      unfolding city_ids_def using replace_city_ids [of c' "cities d"] by auto
    note zs this
    with assms show ?thesis by (simp add: put_cities_def Inr r p references_ok_def)
  qed
qed

lemma post_zones_references_ok:
  assumes "references_ok d"
  shows "references_ok (fst (post_zones n i col ds d now))"
proof (cases "ZoneCreate n i col ds")
  case (Inl e)
  with assms show ?thesis by (simp add: post_zones_def)
next
  case (Inr zd)
  show ?thesis
  proof (cases "create_zone zd d now")
    case (Inl e)
    with assms show ?thesis by (simp add: post_zones_def Inr)
  next
    case r: (Inr p)
    obtain d' z where p: "p = (d', z)" by (cases p)
    from assms have "z_city_id ` set (zones d) \<subseteq> city_ids d"
      by (simp add: references_ok_def)
    from create_zone_references_city [OF this r [unfolded p]] have "references_ok d'"
      by (simp add: references_ok_def)
    then show ?thesis by (simp add: post_zones_def Inr r p)
  qed
qed

lemma put_zones_references_ok:
  assumes "references_ok d"
  shows "references_ok (fst (put_zones zid n i col ds a d now))"
proof (cases "ZoneUpdate n i col ds a")
  case (Inl e)
  with assms show ?thesis by (simp add: put_zones_def)
next
  case (Inr u)
  show ?thesis
  proof (cases "update_zone zid u d now")
    case (Inl e)
    with assms show ?thesis by (simp add: put_zones_def Inr)
  next
    case r: (Inr p)
    obtain d' z' where p: "p = (d', z')" by (cases p)
    from r p obtain z where z: "find (\<lambda>z. z_id z = zid) (zones d) = Some z"
      and cm: "commit_zone d z (foldl setattr_zone (load_zone z) (zone_update_dump u)) now
                = Inr (d', z')"
      by (auto simp: update_zone_def Let_def split: option.splits)
    from z have zin: "z \<in> set (zones d)" by (auto dest: find_Some_set)
    note s = commit_zone_store [OF cm]
    from s zin assms have "z_city_id z' \<in> city_ids d"
      by (auto simp: references_ok_def)
    moreover from s have "city_ids d' = city_ids d" by (simp add: city_ids_def)
    moreover from s have "set (zones d') \<subseteq> insert z' (set (zones d))"
      by (auto simp: replace_zone_def)
    ultimately have "references_ok d'"
      using assms unfolding references_ok_def by blast
    then show ?thesis by (simp add: put_zones_def Inr r p)
  qed
qed

lemma post_zones_keys_distinct:
  assumes "distinct (zone_keys d)"
  shows "distinct (zone_keys (fst (post_zones n i col ds d now)))"
  using assms
  by (cases "ZoneCreate n i col ds")
     (auto simp: post_zones_def split: sum.splits dest: create_zone_keys_distinct)

lemma test_db_invariants:
  "rows_ok test_db" "references_ok test_db" "distinct (zone_keys test_db)"
  by (simp_all add: test_db_def rows_ok_def city_row_ok_def zone_row_ok_def str_length_ok_def
        color_pattern_def hex_digit_def references_ok_def city_ids_def zone_keys_def)

section \<open>Null in an update payload\<close>

lemma find_replace_zone:
  "find (\<lambda>z. z_id z = z_id row) zs \<noteq> None \<Longrightarrow>
     find (\<lambda>z. z_id z = z_id row) (replace_zone row zs) = Some row"
  by (induction zs) (auto simp: replace_zone_def)

lemma find_Some_zone_id: "find (\<lambda>z. z_id z = zid) zs = Some z \<Longrightarrow> z_id z = zid"
  by (induction zs) (auto split: if_splits)

lemma update_zone_description_null:
  assumes f: "find (\<lambda>z. z_id z = zid) (zones d) = Some z"
  shows "\<exists>d' z'. update_zone zid \<lparr>zu_name = Absent, zu_city_id = Absent, zu_color = Absent,
                        zu_description = Null, zu_is_active = Absent\<rparr> d now = Inr (d', z')
           \<and> z_description z' = None
           \<and> find (\<lambda>z. z_id z = zid) (zones d') = Some z'
           \<and> z_name z' = z_name z \<and> z_city_id z' = z_city_id z \<and> z_color z' = z_color z
           \<and> z_is_active z' = z_is_active z"
proof -
  let ?u = "\<lparr>zu_name = Absent, zu_city_id = Absent, zu_color = Absent,
                        zu_description = Null, zu_is_active = Absent\<rparr>"
  let ?obj = "foldl setattr_zone (load_zone z) (zone_update_dump ?u)"
  from f have id: "z_id z = zid" by (rule find_Some_zone_id)
  have upd: "update_zone zid ?u d now = commit_zone d z ?obj now"
    using f by (simp add: update_zone_def Let_def)
  have obj: "?obj = \<lparr>zo_name = Some (z_name z), zo_city_id = Some (z_city_id z),
                     zo_color = Some (z_color z), zo_description = None,
                     zo_is_active = Some (z_is_active z)\<rparr>"
    by (simp add: setattrs_zone load_zone_def)
  show ?thesis
  proof (cases "z_description z")
    case None
    have "commit_zone d z ?obj now = Inr (d, z)"
      unfolding obj by (simp add: commit_zone_def load_zone_def None)
    with f None show ?thesis by (simp only: upd) simp
  next
    case (Some t)
    let ?row = "z\<lparr>z_description := None, z_updated_at := now\<rparr>"
    have c: "commit_zone d z ?obj now = Inr (d\<lparr>zones := replace_zone ?row (zones d)\<rparr>, ?row)"
      unfolding obj by (simp add: commit_zone_def load_zone_def Some Let_def)
    have "find (\<lambda>x. z_id x = z_id ?row) (zones d) \<noteq> None" using f by (simp add: id)
    then have "find (\<lambda>x. z_id x = z_id ?row) (replace_zone ?row (zones d)) = Some ?row"
      by (rule find_replace_zone)
    then have "find (\<lambda>x. z_id x = zid) (replace_zone ?row (zones d)) = Some ?row"
      by (simp add: id)
    with c show ?thesis by (simp only: upd) simp
  qed
qed

text \<open>
  Claim C9. The two update schemas reject a payload only for a value that breaks a
  constraint (a string of the wrong length, a \<open>city_id\<close> that is not positive, a
  colour off the pattern): null passes in every field of \<open>CityUpdate\<close> and of
  \<open>ZoneUpdate\<close>. After the \<open>setattr\<close> loop each field the payload gave as null is \<open>None\<close>
  on the object, as an absent field is left as loaded. On an existing row, a null in
  a field whose column is \<open>nullable=False\<close> (\<open>name\<close>, \<open>country\<close>, \<open>is_active\<close> of a city;
  \<open>name\<close>, \<open>city_id\<close>, \<open>color\<close>, \<open>is_active\<close> of a zone) makes \<open>db.commit()\<close> raise
  \<open>IntegrityError\<close>: the null is refused by the store (status 500), not by the
  validation of the request (status 422). The one nullable column is
  \<open>zones.description\<close>: a payload whose only field is a null \<open>description\<close> succeeds and
  stores \<open>None\<close>, the other fields unchanged, while a payload with no field leaves the
  row as it is.
\<close>

theorem explicit_null_reaches_store:
  "((\<forall>v. n = Value v \<longrightarrow> str_length_ok 2 255 v) \<and> (\<forall>v. k = Value v \<longrightarrow> str_length_ok 0 100 v)
      \<longrightarrow> CityUpdate n k a = Inr \<lparr>cu_name = n, cu_country = k, cu_is_active = a\<rparr>)
   \<and> co_name (foldl setattr_city (load_city c)
        (city_update_dump \<lparr>cu_name = Null, cu_country = k, cu_is_active = a\<rparr>)) = None
   \<and> (find (\<lambda>c. c_id c = cid) (cities d) = Some c
        \<and> (cu_name u = Null \<or> cu_country u = Null \<or> cu_is_active u = Null) \<longrightarrow>
          update_city cid u d now = Inl (IntegrityError NotNullViolation))
   \<and> (find (\<lambda>c. c_id c = cid) (cities d) = Some c \<longrightarrow>
          put_cities cid Null Absent Absent d now = (d, Inl (IntegrityError NotNullViolation)))
   \<and> (cu_country u = Null \<longrightarrow>
          co_country (foldl setattr_city (load_city c) (city_update_dump u)) = None)
   \<and> (cu_is_active u = Null \<longrightarrow>
          co_is_active (foldl setattr_city (load_city c) (city_update_dump u)) = None)
   \<and> ((\<forall>v. zn = Value v \<longrightarrow> str_length_ok 2 255 v) \<and> (\<forall>v. zi = Value v \<longrightarrow> 0 < v)
        \<and> (\<forall>v. zcol = Value v \<longrightarrow> color_pattern v) \<longrightarrow>
          ZoneUpdate zn zi zcol zds za
            = Inr \<lparr>zu_name = zn, zu_city_id = zi, zu_color = zcol, zu_description = zds,
                   zu_is_active = za\<rparr>)
   \<and> (zu_name zu = Null \<longrightarrow>
          zo_name (foldl setattr_zone (load_zone z) (zone_update_dump zu)) = None)
   \<and> (zu_city_id zu = Null \<longrightarrow>
          zo_city_id (foldl setattr_zone (load_zone z) (zone_update_dump zu)) = None)
   \<and> (zu_color zu = Null \<longrightarrow>
          zo_color (foldl setattr_zone (load_zone z) (zone_update_dump zu)) = None)
   \<and> (zu_description zu = Null \<longrightarrow>
          zo_description (foldl setattr_zone (load_zone z) (zone_update_dump zu)) = None)
   \<and> (zu_is_active zu = Null \<longrightarrow>
          zo_is_active (foldl setattr_zone (load_zone z) (zone_update_dump zu)) = None)
   \<and> (find (\<lambda>z. z_id z = zid) (zones d) = Some z
        \<and> (zu_name zu = Null \<or> zu_city_id zu = Null \<or> zu_color zu = Null
            \<or> zu_is_active zu = Null) \<longrightarrow>
          update_zone zid zu d now = Inl (IntegrityError NotNullViolation))
   \<and> (find (\<lambda>z. z_id z = zid) (zones d) = Some z \<longrightarrow>
          put_zones zid Null Null Null Null Null d now
            = (d, Inl (IntegrityError NotNullViolation)))
   \<and> (find (\<lambda>z. z_id z = zid) (zones d) = Some z \<longrightarrow>
          (\<exists>d' z'. update_zone zid \<lparr>zu_name = Absent, zu_city_id = Absent, zu_color = Absent,
                        zu_description = Null, zu_is_active = Absent\<rparr> d now = Inr (d', z')
             \<and> z_description z' = None
             \<and> find (\<lambda>z. z_id z = zid) (zones d') = Some z'
             \<and> z_name z' = z_name z \<and> z_city_id z' = z_city_id z \<and> z_color z' = z_color z
             \<and> z_is_active z' = z_is_active z))
   \<and> (find (\<lambda>z. z_id z = zid) (zones d) = Some z \<longrightarrow>
          update_zone zid \<lparr>zu_name = Absent, zu_city_id = Absent, zu_color = Absent,
                        zu_description = Absent, zu_is_active = Absent\<rparr> d now = Inr (d, z))"
proof (intro conjI impI)
  assume "(\<forall>v. n = Value v \<longrightarrow> str_length_ok 2 255 v) \<and> (\<forall>v. k = Value v \<longrightarrow> str_length_ok 0 100 v)"
  then show "CityUpdate n k a = Inr \<lparr>cu_name = n, cu_country = k, cu_is_active = a\<rparr>"
    by (cases n; cases k) (simp_all add: CityUpdate_def optional_str_def)
next
  show "co_name (foldl setattr_city (load_city c)
        (city_update_dump \<lparr>cu_name = Null, cu_country = k, cu_is_active = a\<rparr>)) = None"
    by (simp add: setattrs_city)
next
  assume a: "find (\<lambda>c. c_id c = cid) (cities d) = Some c
        \<and> (cu_name u = Null \<or> cu_country u = Null \<or> cu_is_active u = Null)"
  let ?obj = "foldl setattr_city (load_city c) (city_update_dump u)"
  from a have "co_name ?obj = None \<or> co_country ?obj = None \<or> co_is_active ?obj = None"
    by (auto simp: setattrs_city)
  then have "commit_city d c ?obj now = Inl (IntegrityError NotNullViolation)"
    by (auto simp: commit_city_def load_city_def split: option.splits)
  with a show "update_city cid u d now = Inl (IntegrityError NotNullViolation)"
    by (simp add: update_city_def Let_def)
next
  assume a: "find (\<lambda>c. c_id c = cid) (cities d) = Some c"
  let ?u = "\<lparr>cu_name = Null, cu_country = Absent, cu_is_active = Absent\<rparr>"
  let ?obj = "foldl setattr_city (load_city c) (city_update_dump ?u)"
  have "co_name ?obj = None" by (simp add: setattrs_city)
  then have "commit_city d c ?obj now = Inl (IntegrityError NotNullViolation)"
    by (auto simp: commit_city_def load_city_def split: option.splits)
  with a have "update_city cid ?u d now = Inl (IntegrityError NotNullViolation)"
    by (simp add: update_city_def Let_def)
  then show "put_cities cid Null Absent Absent d now = (d, Inl (IntegrityError NotNullViolation))"
    by (simp add: put_cities_def CityUpdate_def optional_str_def)
next
  assume "cu_country u = Null"
  then show "co_country (foldl setattr_city (load_city c) (city_update_dump u)) = None"
    by (simp add: setattrs_city)
next
  assume "cu_is_active u = Null"
  then show "co_is_active (foldl setattr_city (load_city c) (city_update_dump u)) = None"
    by (simp add: setattrs_city)
next
  assume "(\<forall>v. zn = Value v \<longrightarrow> str_length_ok 2 255 v) \<and> (\<forall>v. zi = Value v \<longrightarrow> 0 < v)
        \<and> (\<forall>v. zcol = Value v \<longrightarrow> color_pattern v)"
  then show "ZoneUpdate zn zi zcol zds za
            = Inr \<lparr>zu_name = zn, zu_city_id = zi, zu_color = zcol, zu_description = zds,
                   zu_is_active = za\<rparr>"
    by (cases zn; cases zi; cases zcol)
       (simp_all add: ZoneUpdate_def optional_str_def optional_city_id_def optional_color_def)
next
  assume "zu_name zu = Null"
  then show "zo_name (foldl setattr_zone (load_zone z) (zone_update_dump zu)) = None"
    by (simp add: setattrs_zone)
next
  assume "zu_city_id zu = Null"
  then show "zo_city_id (foldl setattr_zone (load_zone z) (zone_update_dump zu)) = None"
    by (simp add: setattrs_zone)
next
  assume "zu_color zu = Null"
  then show "zo_color (foldl setattr_zone (load_zone z) (zone_update_dump zu)) = None"
    by (simp add: setattrs_zone)
next
  assume "zu_description zu = Null"
  then show "zo_description (foldl setattr_zone (load_zone z) (zone_update_dump zu)) = None"
    by (simp add: setattrs_zone)
next
  assume "zu_is_active zu = Null"
  then show "zo_is_active (foldl setattr_zone (load_zone z) (zone_update_dump zu)) = None"
    by (simp add: setattrs_zone)
next
  assume a: "find (\<lambda>z. z_id z = zid) (zones d) = Some z
        \<and> (zu_name zu = Null \<or> zu_city_id zu = Null \<or> zu_color zu = Null
            \<or> zu_is_active zu = Null)"
  let ?obj = "foldl setattr_zone (load_zone z) (zone_update_dump zu)"
  from a have "zo_name ?obj = None \<or> zo_city_id ?obj = None \<or> zo_color ?obj = None
                \<or> zo_is_active ?obj = None"
    by (auto simp: setattrs_zone)
  then have "commit_zone d z ?obj now = Inl (IntegrityError NotNullViolation)"
    by (auto simp: commit_zone_def load_zone_def split: option.splits)
  with a show "update_zone zid zu d now = Inl (IntegrityError NotNullViolation)"
    by (simp add: update_zone_def Let_def)
next
  assume a: "find (\<lambda>z. z_id z = zid) (zones d) = Some z"
  let ?u = "\<lparr>zu_name = Null, zu_city_id = Null, zu_color = Null, zu_description = Null,
             zu_is_active = Null\<rparr>"
  let ?obj = "foldl setattr_zone (load_zone z) (zone_update_dump ?u)"
  have "zo_name ?obj = None" by (simp add: setattrs_zone)
  then have "commit_zone d z ?obj now = Inl (IntegrityError NotNullViolation)"
    by (auto simp: commit_zone_def load_zone_def split: option.splits)
  with a have "update_zone zid ?u d now = Inl (IntegrityError NotNullViolation)"
    by (simp add: update_zone_def Let_def)
  then show "put_zones zid Null Null Null Null Null d now
            = (d, Inl (IntegrityError NotNullViolation))"
    by (simp add: put_zones_def ZoneUpdate_def optional_str_def optional_city_id_def
          optional_color_def)
next
  assume a: "find (\<lambda>z. z_id z = zid) (zones d) = Some z"
  then show "\<exists>d' z'. update_zone zid \<lparr>zu_name = Absent, zu_city_id = Absent, zu_color = Absent,
                        zu_description = Null, zu_is_active = Absent\<rparr> d now = Inr (d', z')
             \<and> z_description z' = None
             \<and> find (\<lambda>z. z_id z = zid) (zones d') = Some z'
             \<and> z_name z' = z_name z \<and> z_city_id z' = z_city_id z \<and> z_color z' = z_color z
             \<and> z_is_active z' = z_is_active z"
    by (rule update_zone_description_null)
next
  assume a: "find (\<lambda>z. z_id z = zid) (zones d) = Some z"
  then show "update_zone zid \<lparr>zu_name = Absent, zu_city_id = Absent, zu_color = Absent,
                        zu_description = Absent, zu_is_active = Absent\<rparr> d now = Inr (d, z)"
    by (simp add: update_zone_def Let_def setattrs_zone commit_zone_def load_zone_def)
qed

theorem explicit_null_reaches_store_witness:
  "CityUpdate Null Absent Absent = Inr \<lparr>cu_name = Null, cu_country = Absent, cu_is_active = Absent\<rparr>
   \<and> put_cities 1 Null Absent Absent test_db 1 = (test_db, Inl (IntegrityError NotNullViolation))
   \<and> update_city 2 \<lparr>cu_name = Absent, cu_country = Absent, cu_is_active = Null\<rparr> test_db 1
        = Inl (IntegrityError NotNullViolation)
   \<and> ZoneUpdate Null Null Null Null Null
        = Inr \<lparr>zu_name = Null, zu_city_id = Null, zu_color = Null, zu_description = Null,
               zu_is_active = Null\<rparr>
   \<and> put_zones 1 Null Null Null Null Null test_db 1
        = (test_db, Inl (IntegrityError NotNullViolation))
   \<and> update_zone 1 \<lparr>zu_name = Absent, zu_city_id = Absent, zu_color = Null,
                     zu_description = Absent, zu_is_active = Absent\<rparr> test_db 1
        = Inl (IntegrityError NotNullViolation)
   \<and> map z_description (zones test_db)
        = [Some ''Zona norte'', Some ''Zona centro'', Some ''Zona sur'']
   \<and> (\<exists>d' z'. update_zone 1 \<lparr>zu_name = Absent, zu_city_id = Absent, zu_color = Absent,
                        zu_description = Null, zu_is_active = Absent\<rparr> test_db 1 = Inr (d', z')
         \<and> z_description z' = None \<and> z_name z' = ''Norte''
         \<and> find (\<lambda>z. z_id z = 1) (zones d') = Some z')
   \<and> status_code (IntegrityError NotNullViolation) = 500"
proof -
  let ?c1 = "\<lparr>c_id = 1, c_name = ''Bogota'', c_country = ''Colombia'', c_is_active = True,
          c_created_at = 0, c_updated_at = 0\<rparr>"
  let ?c2 = "\<lparr>c_id = 2, c_name = ''Medellin'', c_country = ''Colombia'', c_is_active = True,
          c_created_at = 0, c_updated_at = 0\<rparr>"
  let ?z1 = "\<lparr>z_id = 1, z_name = ''Norte'', z_city_id = 1, z_color = ''#E74C3C'',
          z_description = Some ''Zona norte'', z_is_active = True,
          z_created_at = 0, z_updated_at = 0\<rparr>"
  have f1: "find (\<lambda>c. c_id c = 1) (cities test_db) = Some ?c1" by (simp add: test_db_def)
  have f2: "find (\<lambda>c. c_id c = 2) (cities test_db) = Some ?c2" by (simp add: test_db_def)
  have g1: "find (\<lambda>z. z_id z = 1) (zones test_db) = Some ?z1" by (simp add: test_db_def)
  have 1: "CityUpdate Null Absent Absent
          = Inr \<lparr>cu_name = Null, cu_country = Absent, cu_is_active = Absent\<rparr>"
    using explicit_null_reaches_store [where n = Null and k = Absent and a = Absent] by simp
  have 2: "put_cities 1 Null Absent Absent test_db 1
          = (test_db, Inl (IntegrityError NotNullViolation))"
    using explicit_null_reaches_store [where cid = 1 and d = test_db and c = ?c1] f1 by blast
  have 3: "update_city 2 \<lparr>cu_name = Absent, cu_country = Absent, cu_is_active = Null\<rparr> test_db 1
        = Inl (IntegrityError NotNullViolation)"
    using explicit_null_reaches_store [where cid = 2 and d = test_db and c = ?c2
        and u = "\<lparr>cu_name = Absent, cu_country = Absent, cu_is_active = Null\<rparr>"] f2 by simp
  have 4: "ZoneUpdate Null Null Null Null Null
        = Inr \<lparr>zu_name = Null, zu_city_id = Null, zu_color = Null, zu_description = Null,
               zu_is_active = Null\<rparr>"
    using explicit_null_reaches_store [where zn = Null and zi = Null and zcol = Null] by simp
  have 5: "put_zones 1 Null Null Null Null Null test_db 1
        = (test_db, Inl (IntegrityError NotNullViolation))"
    using explicit_null_reaches_store [where zid = 1 and d = test_db and z = ?z1] g1 by blast
  have 6: "update_zone 1 \<lparr>zu_name = Absent, zu_city_id = Absent, zu_color = Null,
                     zu_description = Absent, zu_is_active = Absent\<rparr> test_db 1
        = Inl (IntegrityError NotNullViolation)"
    using explicit_null_reaches_store [where zid = 1 and d = test_db and z = ?z1
        and zu = "\<lparr>zu_name = Absent, zu_city_id = Absent, zu_color = Null,
                     zu_description = Absent, zu_is_active = Absent\<rparr>"] g1 by simp
  have 7: "map z_description (zones test_db)
        = [Some ''Zona norte'', Some ''Zona centro'', Some ''Zona sur'']"
    by (simp add: test_db_def)
  have 8: "\<exists>d' z'. update_zone 1 \<lparr>zu_name = Absent, zu_city_id = Absent, zu_color = Absent,
                        zu_description = Null, zu_is_active = Absent\<rparr> test_db 1 = Inr (d', z')
         \<and> z_description z' = None \<and> z_name z' = ''Norte''
         \<and> find (\<lambda>z. z_id z = 1) (zones d') = Some z'"
  proof -
    note t = explicit_null_reaches_store [where n = Null and k = Absent and a = Absent
        and c = ?c1 and cid = 1 and d = test_db and now = 1
        and u = "\<lparr>cu_name = Null, cu_country = Absent, cu_is_active = Absent\<rparr>"
        and zn = Null and zi = Null and zcol = Null and zds = Null and za = Null
        and zu = "\<lparr>zu_name = Absent, zu_city_id = Absent, zu_color = Absent,
                        zu_description = Null, zu_is_active = Absent\<rparr>"
        and z = ?z1 and zid = 1]
    from t g1 obtain d' z' where
      "update_zone 1 \<lparr>zu_name = Absent, zu_city_id = Absent, zu_color = Absent,
                        zu_description = Null, zu_is_active = Absent\<rparr> test_db 1 = Inr (d', z')"
      "z_description z' = None" "z_name z' = z_name ?z1"
      "find (\<lambda>z. z_id z = 1) (zones d') = Some z'"
      by blast
    then show ?thesis by auto
  qed
  have 9: "status_code (IntegrityError NotNullViolation) = 500" by simp
  from 1 2 3 4 5 6 7 8 9 show ?thesis by (intro conjI)
qed

section \<open>Updating a zone\<close>

lemmas zone_route_defs =
  put_zones_def post_zones_def ZoneUpdate_def ZoneCreate_def optional_str_def required_str_def
  optional_city_id_def required_city_id_def optional_color_def description_value_def errors_of_def
  color_pattern_def hex_digit_def str_length_ok_def update_zone_def create_zone_def
  zone_update_dump_def dump_field_def load_zone_def commit_zone_def insert_zone_def
  replace_zone_def ZoneResponse_def ZoneBase_color_def validate_color_def upper_def
  upper_char_def Let_def

text \<open>
  Claim C1. \<open>create_zone\<close> refuses a second zone with a key \<open>(name, city_id)\<close> the store
  has (\<open>Conflict\<close>) and keeps the keys distinct (lemmas \<open>create_zone_cases\<close> and
  \<open>post_zones_keys_distinct\<close>). \<open>update_zone\<close> has no such check and the table has no
  unique constraint on the key: on the store of the test suite, where the keys are
  distinct, renaming zone 2 (\<open>Centro\<close>, city 1) to \<open>Norte\<close> succeeds and leaves two
  zones with the key \<open>(Norte, 1)\<close>.
\<close>

theorem update_zone_duplicates_key:
  "distinct (zone_keys test_db)
   \<and> post_zones (Value ''Norte'') (Value 1) Absent Absent test_db 1 = (test_db, Inl Conflict)
   \<and> (\<exists>d' r. put_zones 2 (Value ''Norte'') Absent Absent Absent Absent test_db 1 = (d', Inr r)
         \<and> zone_keys d' = [(''Norte'', 1), (''Norte'', 1), (''Sur'', 1)]
         \<and> map z_id (zones d') = [1, 2, 3]
         \<and> \<not> distinct (zone_keys d'))"
  by (simp add: zone_route_defs test_db_def zone_keys_def)

text \<open>
  Claim C2. \<open>create_zone\<close> looks the city up and answers \<open>NotFound\<close> when it does not
  exist (lemma \<open>create_zone_cases\<close>). \<open>update_zone\<close> does not look the city up: on the
  store of the test suite, which has no city 999, moving zone 1 to city 999 reaches
  the commit, where the foreign key refuses it with \<open>IntegrityError\<close> (status 500),
  while the creation of a zone in city 999 answers \<open>NotFound\<close> (status 404). Stored
  zones keep referencing a city (lemma \<open>put_zones_references_ok\<close>), by the foreign key
  and not by a check of the handler.
\<close>

theorem update_zone_city_unchecked:
  "999 \<notin> city_ids test_db
   \<and> post_zones (Value ''Oeste'') (Value 999) Absent Absent test_db 1 = (test_db, Inl NotFound)
   \<and> put_zones 1 Absent (Value 999) Absent Absent Absent test_db 1
        = (test_db, Inl (IntegrityError ForeignKeyViolation))
   \<and> status_code NotFound = 404 \<and> status_code (IntegrityError ForeignKeyViolation) = 500"
  by (simp add: zone_route_defs test_db_def city_ids_def)

text \<open>
  Claim C3. A creation with a colour stores it in upper case (lemma
  \<open>ZoneCreate_color_upper\<close>), and both request schemas reject a colour that does not
  match the pattern (lemmas \<open>ZoneCreate_rejects_color\<close>, \<open>ZoneUpdate_rejects_color\<close>).
  \<open>ZoneUpdate\<close> has the pattern but not the validator of \<open>ZoneBase\<close>: on the store of
  the test suite, updating zone 1 with \<open>#3498db\<close> stores \<open>#3498db\<close>, which does not match
  \<open>^#[0-9A-F]{6}$\<close> (the response shows \<open>#3498DB\<close>, since \<open>ZoneResponse\<close> upper-cases
  what it reads). A creation without a colour stores the default \<open>#3498db\<close> as it is
  written, while a creation with \<open>#3498db\<close> stores \<open>#3498DB\<close>.
\<close>

theorem update_zone_color_not_normalized:
  "(\<exists>d' r. put_zones 1 Absent Absent (Value ''#3498db'') Absent Absent test_db 1 = (d', Inr r)
         \<and> map z_color (zones d') = [''#3498db'', ''#F39C12'', ''#27AE60'']
         \<and> zr_color r = ''#3498DB'')
   \<and> (\<exists>d' r. post_zones (Value ''Oeste'') (Value 1) Absent Absent test_db 1 = (d', Inr r)
         \<and> map z_color (zones d') = [''#E74C3C'', ''#F39C12'', ''#27AE60'', ''#3498db''])
   \<and> (\<exists>d' r. post_zones (Value ''Oeste'') (Value 1) (Value ''#3498db'') Absent test_db 1 = (d', Inr r)
         \<and> map z_color (zones d') = [''#E74C3C'', ''#F39C12'', ''#27AE60'', ''#3498DB''])
   \<and> \<not> upper_hex_color ''#3498db'' \<and> upper_hex_color ''#3498DB''"
  by (simp add: zone_route_defs test_db_def upper_hex_color_def)

end
